theory Spec2Isabelle
  imports Complex_Main "HOL-Library.Char_ord" "HOL-Library.List_Lexorder" "HOL-Library.Multiset"
begin

section \<open>Go library functions used by the program\<close>

text \<open>
  A Go \<open>string\<close> is a sequence of bytes; it is modelled as \<^typ>\<open>string\<close>
  (a list of 8-bit characters). Go compares strings byte by byte, a proper prefix being
  smaller: this is the lexicographic order on \<^typ>\<open>char list\<close> over the byte order.
  A Go \<open>int\<close> is taken to be 64 bits wide (every platform the program supports).
\<close>

subsection \<open>Package strings\<close>

fun HasPrefix :: "string \<Rightarrow> string \<Rightarrow> bool" where
  "HasPrefix s [] = True"
| "HasPrefix [] (p # ps) = False"
| "HasPrefix (c # cs) (p # ps) = (c = p \<and> HasPrefix cs ps)"

definition HasSuffix :: "string \<Rightarrow> string \<Rightarrow> bool" where
  "HasSuffix s suffix =
     (length suffix \<le> length s \<and> drop (length s - length suffix) s = suffix)"

text \<open>\<open>strings.Contains(s, substr)\<close>: \<open>substr\<close> occurs at some position of \<open>s\<close>.\<close>

fun Contains :: "string \<Rightarrow> string \<Rightarrow> bool" where
  "Contains [] substr = HasPrefix [] substr"
| "Contains (c # cs) substr = (HasPrefix (c # cs) substr \<or> Contains cs substr)"

definition TrimSuffix :: "string \<Rightarrow> string \<Rightarrow> string" where
  "TrimSuffix s suffix =
     (if HasSuffix s suffix then take (length s - length suffix) s else s)"

text \<open>
  \<open>strings.Split(s, sep)\<close> for a one-byte separator: the pieces between the
  separators, one more than there are separators (so \<open>Split("", sep)\<close> is \<open>[""]\<close>).
\<close>

fun Split :: "string \<Rightarrow> char \<Rightarrow> string list" where
  "Split [] sep = [[]]"
| "Split (c # cs) sep =
     (if c = sep then [] # Split cs sep
      else (case Split cs sep of [] \<Rightarrow> [[c]] | p # ps \<Rightarrow> (c # p) # ps))"

text \<open>
  \<open>strings.Fields(s)\<close>: the maximal runs of bytes between white space. White
  space is what \<open>unicode.IsSpace\<close> accepts: the six characters of ASCII (tab, line
  feed, vertical tab, form feed, carriage return, space) and, in their UTF-8
  encodings, U+0085, U+00A0, U+1680, U+2000 to U+200A, U+2028, U+2029, U+202F,
  U+205F and U+3000. Each of these encodings starts with a byte that never
  continues another character, so it is white space wherever it stands.
\<close>

definition isSpace :: "char \<Rightarrow> bool" where
  "isSpace c = (c \<in> {CHR 0x09, CHR 0x0A, CHR 0x0B, CHR 0x0C, CHR 0x0D, CHR '' ''})"

definition unicode_spaces :: "string list" where
  "unicode_spaces =
     [[CHR 0xC2, CHR 0x85], [CHR 0xC2, CHR 0xA0], [CHR 0xE1, CHR 0x9A, CHR 0x80],
      [CHR 0xE2, CHR 0x80, CHR 0x80], [CHR 0xE2, CHR 0x80, CHR 0x81],
      [CHR 0xE2, CHR 0x80, CHR 0x82], [CHR 0xE2, CHR 0x80, CHR 0x83],
      [CHR 0xE2, CHR 0x80, CHR 0x84], [CHR 0xE2, CHR 0x80, CHR 0x85],
      [CHR 0xE2, CHR 0x80, CHR 0x86], [CHR 0xE2, CHR 0x80, CHR 0x87],
      [CHR 0xE2, CHR 0x80, CHR 0x88], [CHR 0xE2, CHR 0x80, CHR 0x89],
      [CHR 0xE2, CHR 0x80, CHR 0x8A], [CHR 0xE2, CHR 0x80, CHR 0xA8],
      [CHR 0xE2, CHR 0x80, CHR 0xA9], [CHR 0xE2, CHR 0x80, CHR 0xAF],
      [CHR 0xE2, CHR 0x81, CHR 0x9F], [CHR 0xE3, CHR 0x80, CHR 0x80]]"

text \<open>The number of bytes of the white space at the start of a text, 0 when the
  text does not start with white space.\<close>

definition space_width :: "string \<Rightarrow> nat" where
  "space_width s =
     (case s of
        [] \<Rightarrow> 0
      | c # cs \<Rightarrow>
          if isSpace c then 1
          else (case find (HasPrefix s) unicode_spaces of
                  Some u \<Rightarrow> length u
                | None \<Rightarrow> 0))"

text \<open>\<open>cur\<close> is the field being read, last byte first; \<open>skip\<close> counts the bytes still
  to pass of a white space of several bytes.\<close>

fun Fields_from :: "string \<Rightarrow> nat \<Rightarrow> string \<Rightarrow> string list" where
  "Fields_from cur skip [] = (if cur = [] then [] else [rev cur])"
| "Fields_from cur skip (c # cs) =
     (if skip > 0 then Fields_from cur (skip - 1) cs
      else if space_width (c # cs) > 0 then
        (if cur = [] then Fields_from [] (space_width (c # cs) - 1) cs
         else rev cur # Fields_from [] (space_width (c # cs) - 1) cs)
      else Fields_from (c # cur) 0 cs)"

definition Fields :: "string \<Rightarrow> string list" where
  "Fields s = Fields_from [] 0 s"

definition ReplaceAll_char :: "string \<Rightarrow> char \<Rightarrow> string" where
  \<comment> \<open>\<open>strings.ReplaceAll(s, old, "")\<close> for a one-byte \<open>old\<close>\<close>
  "ReplaceAll_char s old = filter (\<lambda>c. c \<noteq> old) s"

text \<open>\<open>strings.Join(elems, " ")\<close>.\<close>

fun Join :: "string list \<Rightarrow> string \<Rightarrow> string" where
  "Join [] sep = []"
| "Join [x] sep = x"
| "Join (x # y # ys) sep = x @ sep @ Join (y # ys) sep"

subsection \<open>Package strconv\<close>

definition isDigit :: "char \<Rightarrow> bool" where
  "isDigit c = (CHR ''0'' \<le> c \<and> c \<le> CHR ''9'')"

definition digitVal :: "char \<Rightarrow> int" where
  "digitVal c = of_char c - 48"

text \<open>The number that a string of decimal digits denotes.\<close>

definition decimal :: "string \<Rightarrow> int" where
  "decimal ds = foldl (\<lambda>n c. 10 * n + digitVal c) 0 ds"

datatype NumError = ErrSyntax | ErrRange

text \<open>
  The loop of \<open>strconv.ParseUint(s, 10, 64)\<close>, from the number \<open>n\<close> read so far:
  the bytes are read from left to right; a byte that is no digit is a syntax error
  (value 0); as soon as the number leaves the range of \<open>uint64\<close> the result is
  the largest \<open>uint64\<close> with \<open>ErrRange\<close>, whatever follows.
\<close>

fun scan_digits :: "int \<Rightarrow> string \<Rightarrow> int \<times> NumError option" where
  "scan_digits n [] = (n, None)"
| "scan_digits n (c # cs) =
     (if \<not> isDigit c then (0, Some ErrSyntax)
      else if n \<ge> 1844674407370955162 then (2 ^ 64 - 1, Some ErrRange)
      else if 10 * n + digitVal c > 2 ^ 64 - 1 then (2 ^ 64 - 1, Some ErrRange)
      else scan_digits (10 * n + digitVal c) cs)"

text \<open>
  \<open>strconv.ParseInt(s, 10, 64)\<close>: an optional sign, then \<open>ParseUint\<close> on the rest,
  which must not be empty. On a syntax error the value is 0; out of the range of
  \<open>int64\<close> the value is the nearest bound and the error is \<open>ErrRange\<close>.
  \<open>strconv.Atoi\<close> gives the same results on a 64-bit platform.
\<close>

definition ParseInt :: "string \<Rightarrow> int \<times> NumError option" where
  "ParseInt s =
     (let neg = (s \<noteq> [] \<and> hd s = CHR ''-'');
          ds = (if s \<noteq> [] \<and> (hd s = CHR ''+'' \<or> hd s = CHR ''-'') then tl s else s)
      in if ds = [] then (0, Some ErrSyntax)
         else
           (case scan_digits 0 ds of
              (un, err) \<Rightarrow>
                if err = Some ErrSyntax then (0, Some ErrSyntax)
                else if \<not> neg \<and> un \<ge> 2 ^ 63 then (2 ^ 63 - 1, Some ErrRange)
                else if neg \<and> un > 2 ^ 63 then (- (2 ^ 63), Some ErrRange)
                else ((if neg then - un else un), None)))"

definition Atoi :: "string \<Rightarrow> int \<times> NumError option" where
  "Atoi s = ParseInt s"

text \<open>Arithmetic on \<open>int\<close> wraps around at 64 bits (two's complement).\<close>

definition wrap64 :: "int \<Rightarrow> int" where
  "wrap64 x = (x + 2 ^ 63) mod 2 ^ 64 - 2 ^ 63"

subsection \<open>Package path/filepath (Unix)\<close>

text \<open>
  \<open>filepath.Clean\<close>: the shortest path naming the same place by lexical rewriting
  alone. Empty and \<open>.\<close> elements go; a \<open>..\<close> element removes the element before
  it, is dropped at the root, and is kept at the front of a relative path. The
  result is \<open>.\<close> when nothing is left.
\<close>

definition clean_step :: "bool \<Rightarrow> string list \<Rightarrow> string \<Rightarrow> string list" where
  \<comment> \<open>the elements kept so far, last one first\<close>
  "clean_step rooted kept element =
     (if element = ''..'' then
        (if kept \<noteq> [] \<and> hd kept \<noteq> ''..'' then tl kept
         else if rooted then kept
         else ''..'' # kept)
      else element # kept)"

definition Clean :: "string \<Rightarrow> string" where
  "Clean path =
     (if path = [] then ''.''
      else
        (let rooted = (hd path = CHR ''/'');
             elements = filter (\<lambda>e. e \<noteq> [] \<and> e \<noteq> ''.'') (Split path CHR ''/'');
             kept = rev (foldl (clean_step rooted) [] elements);
             out = (if rooted then ''/'' else []) @ Join kept ''/''
         in if out = [] then ''.'' else out))"

text \<open>\<open>filepath.Join\<close>: leading empty elements are ignored, the rest is joined with
  slashes and cleaned; with no non-empty element the result is empty.\<close>

definition filepath_Join :: "string list \<Rightarrow> string" where
  "filepath_Join elem =
     (case dropWhile (\<lambda>e. e = []) elem of
        [] \<Rightarrow> []
      | e # es \<Rightarrow> Clean (Join (e # es) ''/''))"

text \<open>\<open>filepath.Base\<close>: the last element of a path, trailing slashes removed first.\<close>

definition Base :: "string \<Rightarrow> string" where
  "Base path =
     (if path = [] then ''.''
      else
        (let stripped = rev (dropWhile (\<lambda>c. c = CHR ''/'') (rev path));
             element = rev (takeWhile (\<lambda>c. c \<noteq> CHR ''/'') (rev stripped))
         in if element = [] then ''/'' else element))"

subsection \<open>Package time\<close>

text \<open>
  A \<open>time.Time\<close> is an instant (seconds since the Unix epoch) together with the
  zone in force at that instant in the local time zone: its abbreviation and its
  offset east of UTC in seconds.
\<close>

record Time =
  unix :: int
  zone_name :: string
  zone_offset :: int

text \<open>The date of the proleptic Gregorian calendar for a day number (days since
  1970-01-01), as \<open>Time.Date\<close> computes it: year, month, day of the month.\<close>

definition civil_from_days :: "int \<Rightarrow> int \<times> int \<times> int" where
  "civil_from_days days =
     (let z = days + 719468;
          era = z div 146097;
          doe = z - era * 146097;
          yoe = (doe - doe div 1460 + doe div 36524 - doe div 146096) div 365;
          doy = doe - (365 * yoe + yoe div 4 - yoe div 100);
          mp = (5 * doy + 2) div 153;
          d = doy - (153 * mp + 2) div 5 + 1;
          m = (if mp < 10 then mp + 3 else mp - 9);
          y = yoe + era * 400 + (if m \<le> 2 then 1 else 0)
      in (y, m, d))"

function digits :: "int \<Rightarrow> string" where
  "digits n = (if n < 10 then [''0123456789'' ! nat n]
               else digits (n div 10) @ [''0123456789'' ! nat (n mod 10)])"
  by pat_completeness auto
termination
  by (relation "measure nat") auto

text \<open>\<open>appendInt(x, width)\<close>: decimal digits, padded with zeros to the width, after
  a minus sign when negative.\<close>

definition appendInt :: "int \<Rightarrow> nat \<Rightarrow> string" where
  "appendInt x width =
     (let ds = digits \<bar>x\<bar>;
          padded = replicate (width - length ds) CHR ''0'' @ ds
      in if x < 0 then CHR ''-'' # padded else padded)"

text \<open>The zone as the layout element \<open>MST\<close> prints it: the abbreviation, or the
  numeric offset (sign, hours, minutes) when the zone has none. The offset in
  minutes is \<open>offset / 60\<close> in Go, a division that truncates toward zero.\<close>

definition formatZone :: "Time \<Rightarrow> string" where
  "formatZone t =
     (if zone_name t \<noteq> [] then zone_name t
      else
        (let zone = (if zone_offset t < 0 then - ((- zone_offset t) div 60)
                     else zone_offset t div 60);
             a = \<bar>zone\<bar>
         in (if zone < 0 then ''-'' else ''+'') @ appendInt (a div 60) 2 @ appendInt (a mod 60) 2))"

text \<open>\<open>t.Format("MST_2006-01-02_15.04.05")\<close>.\<close>

definition Format :: "Time \<Rightarrow> string" where
  "Format t =
     (let local = unix t + zone_offset t;
          (year, month, day) = civil_from_days (local div 86400);
          secs = local mod 86400
      in formatZone t @ ''_'' @ appendInt year 4 @ ''-'' @ appendInt month 2 @ ''-''
           @ appendInt day 2 @ ''_'' @ appendInt (secs div 3600) 2 @ ''.''
           @ appendInt (secs mod 3600 div 60) 2 @ ''.'' @ appendInt (secs mod 60) 2)"

subsection \<open>Package regexp, for the patterns of the program\<close>

text \<open>
  The pattern \<open>\d+\.\d+\.\d+\<close> anchored at the start of a text. A greedy \<open>\d+\<close>
  takes the whole run of digits (a shorter run would be followed by a digit, not
  by the dot), so the match is unique when there is one.
\<close>

definition match_version :: "string \<Rightarrow> string option" where
  "match_version s =
     (let d1 = takeWhile isDigit s; r1 = dropWhile isDigit s in
      if d1 = [] then None
      else
        (case r1 of
           [] \<Rightarrow> None
         | c1 # s2 \<Rightarrow>
             if c1 \<noteq> CHR ''.'' then None
             else
               (let d2 = takeWhile isDigit s2; r2 = dropWhile isDigit s2 in
                if d2 = [] then None
                else
                  (case r2 of
                     [] \<Rightarrow> None
                   | c2 # s3 \<Rightarrow>
                       if c2 \<noteq> CHR ''.'' then None
                       else
                         (let d3 = takeWhile isDigit s3 in
                          if d3 = [] then None
                          else Some (d1 @ ''.'' @ d2 @ ''.'' @ d3))))))"

text \<open>\<open>re.FindString(s)\<close> for that pattern: the leftmost match, or the empty string.\<close>

fun FindString_version :: "string \<Rightarrow> string" where
  "FindString_version [] = []"
| "FindString_version (c # cs) =
     (case match_version (c # cs) of
        Some m \<Rightarrow> m
      | None \<Rightarrow> FindString_version cs)"

text \<open>
  The byte-count patterns have the shape \<open>prefix([0-9,]+)suffix\<close> with literal
  prefix and suffix, the suffix empty or starting with a space. Anchored at the
  start of a text, the group takes the whole run of digits and commas.
  \<open>FindSubmatch\<close> is the group of the leftmost match
  (\<open>re.FindStringSubmatch(s)[1]\<close>), \<open>None\<close> when nothing matches.
\<close>

definition isCountChar :: "char \<Rightarrow> bool" where
  "isCountChar c = (isDigit c \<or> c = CHR '','')"

definition match_count :: "string \<Rightarrow> string \<Rightarrow> string \<Rightarrow> string option" where
  "match_count pre suf s =
     (if HasPrefix s pre then
        (let rest = drop (length pre) s; captured = takeWhile isCountChar rest in
         if captured \<noteq> [] \<and> HasPrefix (dropWhile isCountChar rest) suf then Some captured
         else None)
      else None)"

fun FindSubmatch :: "string \<Rightarrow> string \<Rightarrow> string \<Rightarrow> string option" where
  "FindSubmatch pre suf [] = match_count pre suf []"
| "FindSubmatch pre suf (c # cs) =
     (case match_count pre suf (c # cs) of
        Some captured \<Rightarrow> Some captured
      | None \<Rightarrow> FindSubmatch pre suf cs)"

subsection \<open>Conversion of an integer to float64\<close>

text \<open>
  \<open>float64(n)\<close> for an \<open>int64\<close>: the nearest number with a 53-bit significand,
  ties to even; the value is again an integer, and it is \<open>n\<close> itself below
  \<open>2^53\<close>. Dividing it by \<open>2^30\<close> is exact.
\<close>

function bitlen :: "int \<Rightarrow> nat" where
  "bitlen n = (if n \<le> 0 then 0 else Suc (bitlen (n div 2)))"
  by pat_completeness auto
termination
  by (relation "measure nat") auto

definition float64_of_int :: "int \<Rightarrow> int" where
  "float64_of_int n =
     (let a = \<bar>n\<bar> in
      if a < 2 ^ 53 then n
      else
        (let e = bitlen a - 53;
             q = a div 2 ^ e;
             r = a mod 2 ^ e;
             half = 2 ^ (e - 1);
             q' = (if r > half \<or> (r = half \<and> odd q) then q + 1 else q)
         in sgn n * (q' * 2 ^ e)))"

section \<open>Errors\<close>

text \<open>
  The program's errors are Go \<open>error\<close> values built by \<open>fmt.Errorf\<close>; each
  constructor stands for one message of the source, with the values the message
  formats. \<open>Wrapped\<close> is the prefix that \<open>Backup.Run\<close> puts before the error of a
  failed step.
\<close>

datatype stage =
  ConfigValidation | PathValidation | DiskSpaceCheck | CreateLock | SetupLogging
  | FindRsync | Rsync | BackupVerification | FinalizeBackup | UpdateLatestLink

datatype error =
    SourceAndDestinationRequired
  | SourceEmpty | DestinationEmpty | KeepTooSmall | CleanupPercentOutOfRange
  | DestinationCreateError | SourceMissing string | PathNotMounted string
  | DfFailed | UnexpectedDfOutput | UnexpectedDfFormat | DiskUsageParseError NumError
  | DiskThresholdExceeded int int
  | AlreadyRunning string | LockIOError
  | LogDirCreateError | LogOpenError
  | BinaryNotFound | IncompatibleBinary
  | ProcessError
  | SnapshotMissing string | SnapshotReadError | SnapshotEmpty
  | FinalizeRenameError
  | OsError
  | Wrapped stage error

section \<open>Configuration (config.go)\<close>

record Config =
  Source :: string
  Destination :: string
  Keep :: int
  CleanupAtPercent :: int
  ExcludeList :: string
  LogFile :: string
  LockFile :: string
  DryRun :: bool
  ForceSystemRsync :: bool
  ShowProgress :: bool
  RsyncBin :: string

record ConfigFile =
  cf_Source :: string
  cf_Destination :: string
  cf_Keep :: int
  cf_CleanupAtPercent :: int
  cf_ExcludeList :: string
  cf_LogFile :: string
  cf_LockFile :: string
  cf_DryRun :: bool
  cf_ForceSystemRsync :: bool
  cf_ShowProgress :: bool

text \<open>The default configuration of variables.go.\<close>

definition DefaultConfig :: Config where
  "DefaultConfig =
     \<lparr>Source = ''/Volumes/external-0'',
      Destination = ''/Volumes/backup-0/backups'',
      Keep = 30,
      CleanupAtPercent = 95,
      ExcludeList = ''/Volumes/external-0/.backup-exclude.list'',
      LogFile = ''/Volumes/backup-0/backups/backup.log'',
      LockFile = ''/tmp/backupRunningLock'',
      DryRun = False,
      ForceSystemRsync = False,
      ShowProgress = True,
      RsyncBin = []\<rparr>"

text \<open>
  \<open>LoadConfig(filename)\<close>. It starts from the package variable \<open>DefaultConfig\<close>;
  here the starting configuration is the parameter \<open>defaults\<close>, so that what is
  proved holds whatever the defaults are. The other parameters are the two
  library calls whose results depend on the environment: \<open>os.ReadFile\<close>
  (\<open>None\<close> when the file cannot be read) and \<open>json.Unmarshal\<close> into a
  \<open>ConfigFile\<close> (\<open>None\<close> when the document cannot be decoded). Go returns the
  configuration and the error together.
\<close>

definition merge_file :: "Config \<Rightarrow> ConfigFile \<Rightarrow> Config" where
  "merge_file config configFile =
     config\<lparr>Source := cf_Source configFile,
       Destination := cf_Destination configFile,
       Keep := cf_Keep configFile,
       CleanupAtPercent := cf_CleanupAtPercent configFile,
       ExcludeList := cf_ExcludeList configFile,
       LockFile := cf_LockFile configFile,
       LogFile := cf_LogFile configFile,
       DryRun := cf_DryRun configFile,
       ForceSystemRsync := cf_ForceSystemRsync configFile,
       ShowProgress := cf_ShowProgress configFile\<rparr>"

definition load_file ::
  "Config \<Rightarrow> (string \<Rightarrow> string option) \<Rightarrow> (string \<Rightarrow> ConfigFile option) \<Rightarrow> string \<Rightarrow> Config"
where
  "load_file defaults ReadFile Unmarshal filename =
     (if filename \<noteq> [] then
        (case ReadFile filename of
           None \<Rightarrow> defaults
         | Some data \<Rightarrow>
             (case Unmarshal data of
                None \<Rightarrow> defaults
              | Some configFile \<Rightarrow> merge_file defaults configFile))
      else defaults)"

definition basic_validation :: "Config \<Rightarrow> Config \<times> error option" where
  "basic_validation config =
     (if Source config = [] \<or> Destination config = []
      then (config, Some SourceAndDestinationRequired)
      else
        (let config1 = (if Keep config < 1 then config\<lparr>Keep := 7\<rparr> else config);
             config2 = (if CleanupAtPercent config1 < 50 \<or> CleanupAtPercent config1 > 95
                        then config1\<lparr>CleanupAtPercent := 90\<rparr> else config1)
         in (config2, None)))"

definition LoadConfig ::
  "Config \<Rightarrow> (string \<Rightarrow> string option) \<Rightarrow> (string \<Rightarrow> ConfigFile option) \<Rightarrow> string
    \<Rightarrow> Config \<times> error option"
where
  "LoadConfig defaults ReadFile Unmarshal filename =
     basic_validation (load_file defaults ReadFile Unmarshal filename)"

section \<open>The state a run works on\<close>

text \<open>
  The destination directory is modelled by its immediate children: a name and
  what stands under it. A directory carries the names of its own entries. Symbolic
  links resolve among the children of the destination; a link to any other place
  dangles. The second component of the state tells whether the lock directory
  exists. The lock and the log file are taken to lie outside the names listed
  in the destination. Console and log output is not part of the state.
\<close>

datatype node = File | Symlink string | Dir "string list"

type_synonym directory = "(string \<times> node) list"

record world =
  dest :: directory
  lock :: bool

text \<open>
  Everything else a run observes is the environment's: the results of the external
  commands, and whether a system call fails for a reason the state above does not
  show (permissions, devices, a full disk).
\<close>

record env =
  goos :: string  \<comment> \<open>\<open>runtime.GOOS\<close>\<close>
  mkdirall_dest_ok :: bool  \<comment> \<open>\<open>os.MkdirAll\<close> of the destination succeeds\<close>
  source_exists :: bool  \<comment> \<open>\<open>os.Stat\<close> of the source does not report "not exist"\<close>
  df_source_ok :: bool  \<comment> \<open>\<open>df <source>\<close> exits with 0\<close>
  df_dest_ok :: bool  \<comment> \<open>\<open>df <destination>\<close> exits with 0\<close>
  df_output :: "string option"  \<comment> \<open>standard output of \<open>df -h <destination>\<close>\<close>
  mkdir_lock_fails :: bool  \<comment> \<open>\<open>os.Mkdir\<close> of the lock fails though nothing is there\<close>
  removeall_lock_fails :: bool  \<comment> \<open>\<open>os.RemoveAll\<close> of the lock fails\<close>
  log_dir_ok :: bool  \<comment> \<open>\<open>os.MkdirAll\<close> of the log directory succeeds\<close>
  log_open_ok :: bool  \<comment> \<open>\<open>os.OpenFile\<close> of the log file succeeds\<close>
  binary_exists :: "string \<Rightarrow> bool"  \<comment> \<open>\<open>os.Stat\<close> of a binary's path succeeds\<close>
  version_cmd :: "string \<Rightarrow> string option"  \<comment> \<open>standard output of \<open><binary> --version\<close>\<close>
  exclude_exists :: bool  \<comment> \<open>\<open>os.Stat\<close> of the exclusion list succeeds\<close>
  rsync :: "string \<Rightarrow> string list \<Rightarrow> directory \<Rightarrow> bool \<times> directory \<times> string"
    \<comment> \<open>the external process: exit status 0, the destination it leaves, its output\<close>
  rename_fails :: bool  \<comment> \<open>\<open>os.Rename\<close> fails for an outside reason\<close>
  symlink_fails :: bool  \<comment> \<open>\<open>os.Symlink\<close> fails for an outside reason\<close>
  readdir_dest_fails :: bool  \<comment> \<open>\<open>os.ReadDir\<close> of the destination fails\<close>
  removeall_fails :: "string \<Rightarrow> bool"  \<comment> \<open>\<open>os.RemoveAll\<close> of that child fails\<close>
  removeall_left :: "string \<Rightarrow> string list"
    \<comment> \<open>the entries that a failed \<open>os.RemoveAll\<close> could not remove from that child\<close>

text \<open>The three sets of rsync arguments of variables.go. The functions below take
  them as a parameter, so that what is proved of the argument vector holds for any
  such sets; \<open>program_vars\<close> are the sets of the program.\<close>

record variables =
  RsyncBaseArgs :: "string list"
  RsyncSSHArgs :: "string list"
  RsyncMacOSArgs :: "string list"

definition program_vars :: variables where
  "program_vars =
     \<lparr>RsyncBaseArgs = [''-a'', ''-U'', ''--numeric-ids'', ''-H'', ''-A'', ''--partial'',
                        ''--itemize-changes'', ''--delete'', ''--delete-excluded'', ''--stats''],
      RsyncSSHArgs = [''-z'', ''--compress-level=6'', ''-e'',
                      ''ssh -o StrictHostKeyChecking=no -o UserKnownHostsFile=/dev/null''],
      RsyncMacOSArgs = [''-E'', ''--fileflags'']\<rparr>"

subsection \<open>System calls on the children of the destination\<close>

definition IsDir :: "node \<Rightarrow> bool" where
  "IsDir n = (case n of Dir entries \<Rightarrow> True | _ \<Rightarrow> False)"

definition delete_child :: "string \<Rightarrow> directory \<Rightarrow> directory" where
  "delete_child name d = filter (\<lambda>(k, n). k \<noteq> name) d"

definition put_child :: "string \<Rightarrow> node \<Rightarrow> directory \<Rightarrow> directory" where
  "put_child name n d = delete_child name d @ [(name, n)]"

text \<open>
  \<open>os.Stat\<close> follows symbolic links. It finds a file or a directory, or fails
  because a name does not exist (\<open>os.IsNotExist\<close>), or fails because more links
  than the system allows (40) had to be followed, which is another error (ELOOP).
\<close>

datatype stat_result = Found node | NotExist | TooManyLinks

fun follow :: "nat \<Rightarrow> directory \<Rightarrow> string \<Rightarrow> stat_result" where
  "follow 0 d name =
     (case map_of d name of
        None \<Rightarrow> NotExist
      | Some (Symlink target) \<Rightarrow> TooManyLinks
      | Some n \<Rightarrow> Found n)"
| "follow (Suc k) d name =
     (case map_of d name of
        None \<Rightarrow> NotExist
      | Some (Symlink target) \<Rightarrow> follow k d target
      | Some n \<Rightarrow> Found n)"

definition Stat :: "directory \<Rightarrow> string \<Rightarrow> stat_result" where
  "Stat d name = follow 40 d name"

text \<open>\<open>os.Remove\<close>: a file, a link or an empty directory; \<open>None\<close> is the error.\<close>

definition os_Remove :: "string \<Rightarrow> directory \<Rightarrow> directory option" where
  "os_Remove name d =
     (case map_of d name of
        None \<Rightarrow> None
      | Some (Dir entries) \<Rightarrow> if entries = [] then Some (delete_child name d) else None
      | Some n \<Rightarrow> Some (delete_child name d))"

text \<open>\<open>os.Symlink(target, name)\<close> fails when the name exists.\<close>

definition os_Symlink :: "env \<Rightarrow> string \<Rightarrow> string \<Rightarrow> directory \<Rightarrow> directory option" where
  "os_Symlink e target name d =
     (if symlink_fails e \<or> map_of d name \<noteq> None then None
      else Some (put_child name (Symlink target) d))"

text \<open>
  \<open>os.Rename(old, new)\<close>. Go first looks at the new name without following
  links: when it is a directory the call fails ("file exists"), whatever the old
  name is. Otherwise it is rename(2): the old name must exist; renaming a name to
  itself changes nothing; a file or link under the new name is replaced, but not
  by a directory.
\<close>

definition os_Rename :: "env \<Rightarrow> string \<Rightarrow> string \<Rightarrow> directory \<Rightarrow> directory option" where
  "os_Rename e old new d =
     (if rename_fails e then None
      else
        (case map_of d new of
           Some (Dir entries) \<Rightarrow> None
         | target \<Rightarrow>
             (case map_of d old of
                None \<Rightarrow> None
              | Some n \<Rightarrow>
                  if old = new then Some d
                  else if target \<noteq> None \<and> IsDir n then None
                  else Some (put_child new n (delete_child old d)))))"

text \<open>
  \<open>os.RemoveAll\<close>: removes the child and all it contains; a missing child is no
  error. When it fails it has removed what it could: the child is still there, and
  of a directory only the entries that could not be removed are left.
\<close>

definition leftover :: "string list \<Rightarrow> node \<Rightarrow> node" where
  "leftover left n =
     (case n of Dir entries \<Rightarrow> Dir (filter (\<lambda>x. x \<in> set left) entries) | other \<Rightarrow> other)"

definition os_RemoveAll :: "env \<Rightarrow> string \<Rightarrow> world \<Rightarrow> world" where
  "os_RemoveAll e name w =
     (if removeall_fails e name
      then w\<lparr>dest := map (\<lambda>(k, n). if k = name then (k, leftover (removeall_left e name) n)
                                 else (k, n)) (dest w)\<rparr>
      else w\<lparr>dest := delete_child name (dest w)\<rparr>)"

text \<open>\<open>os.ReadDir\<close> of the destination: its entries, or \<open>None\<close> for the error.\<close>

definition os_ReadDir :: "env \<Rightarrow> world \<Rightarrow> directory option" where
  "os_ReadDir e w = (if readdir_dest_fails e then None else Some (dest w))"

definition os_Readlink :: "directory \<Rightarrow> string \<Rightarrow> string option" where
  "os_Readlink d name = (case map_of d name of Some (Symlink target) \<Rightarrow> Some target | _ \<Rightarrow> None)"

section \<open>The backup run (main.go)\<close>

record Backup =
  config :: Config
  timestamp :: string
  snapDir :: string
  latestLink :: string

text \<open>\<open>NewBackup(config)\<close>; the current time is the environment's.\<close>

definition NewBackup :: "Config \<Rightarrow> Time \<Rightarrow> Backup" where
  "NewBackup conf now =
     (let stamp = Format now in
      \<lparr>config = conf,
       timestamp = stamp,
       snapDir = filepath_Join [Destination conf, stamp @ ''_INCOMPLETE''],
       latestLink = filepath_Join [Destination conf, ''latest'']\<rparr>)"

text \<open>
  In the state, \<open>b.snapDir\<close> before finalization is the child
  \<open>timestamp_INCOMPLETE\<close> of the destination, the finalized snapshot is the child
  \<open>timestamp\<close>, and \<open>b.latestLink\<close> is the child \<open>latest\<close>.
\<close>

definition incomplete_name :: "Backup \<Rightarrow> string" where
  "incomplete_name b = timestamp b @ ''_INCOMPLETE''"

definition validateConfig :: "Backup \<Rightarrow> error option" where
  "validateConfig b =
     (if Source (config b) = [] then Some SourceEmpty
      else if Destination (config b) = [] then Some DestinationEmpty
      else if Keep (config b) < 1 then Some KeepTooSmall
      else if CleanupAtPercent (config b) < 50 \<or> CleanupAtPercent (config b) > 95
        then Some CleanupPercentOutOfRange
      else None)"

definition isSSHPath :: "string \<Rightarrow> bool" where
  "isSSHPath path = (Contains path ''@'' \<and> Contains path '':'')"

text \<open>
  \<open>checkDiskSpace\<close>. The output of the command \<open>df -h\<close> on the destination is the environment's:
  \<open>None\<close> when the command fails, the text of its standard output otherwise.
\<close>

definition checkDiskSpace :: "Backup \<Rightarrow> string option \<Rightarrow> error option" where
  "checkDiskSpace b df_result =
     (if isSSHPath (Destination (config b)) then None
      else
        (case df_result of
           None \<Rightarrow> Some DfFailed
         | Some output \<Rightarrow>
             (let lines = Split output CHR 0x0A in
              if length lines < 2 then Some UnexpectedDfOutput
              else
                (let fields = Fields (lines ! 1) in
                 if length fields < 5 then Some UnexpectedDfFormat
                 else
                   (let usageStr = TrimSuffix (fields ! 4) ''%'' in
                    (case Atoi usageStr of
                       (usage, Some err) \<Rightarrow> Some (DiskUsageParseError err)
                     | (usage, None) \<Rightarrow>
                         (if usage \<ge> CleanupAtPercent (config b)
                          then Some (DiskThresholdExceeded usage (CleanupAtPercent (config b)))
                          else None)))))))"

definition validatePaths :: "Backup \<Rightarrow> env \<Rightarrow> error option" where
  "validatePaths b e =
     (if \<not> mkdirall_dest_ok e then Some DestinationCreateError
      else if \<not> source_exists e then Some (SourceMissing (Source (config b)))
      else if \<not> df_source_ok e then Some (PathNotMounted (Source (config b)))
      else if \<not> df_dest_ok e then Some (PathNotMounted (Destination (config b)))
      else None)"

text \<open>\<open>createLock\<close>: \<open>os.Mkdir\<close> fails with "exists" when the lock is there.\<close>

definition createLock :: "Backup \<Rightarrow> env \<Rightarrow> world \<Rightarrow> world \<times> error option" where
  "createLock b e w =
     (if lock w then (w, Some (AlreadyRunning (LockFile (config b))))
      else if mkdir_lock_fails e then (w, Some LockIOError)
      else (w\<lparr>lock := True\<rparr>, None))"

definition removeLock :: "Backup \<Rightarrow> env \<Rightarrow> world \<Rightarrow> world" where
  "removeLock b e w = (if removeall_lock_fails e then w else w\<lparr>lock := False\<rparr>)"

definition setupLogging :: "Backup \<Rightarrow> env \<Rightarrow> error option" where
  "setupLogging b e =
     (if \<not> log_dir_ok e then Some LogDirCreateError
      else if \<not> log_open_ok e then Some LogOpenError
      else None)"

subsection \<open>The rsync binary\<close>

definition getRsyncVersion :: "Backup \<Rightarrow> env \<Rightarrow> string \<times> error option" where
  "getRsyncVersion b e =
     (case version_cmd e (RsyncBin (config b)) of
        None \<Rightarrow> ([], Some ProcessError)
      | Some output \<Rightarrow> (FindString_version output, None))"

definition isOldRsync :: "string \<Rightarrow> bool" where
  "isOldRsync version =
     (let parts = Split version CHR ''.'' in
      if length parts < 3 then True
      else
        (let major = fst (Atoi (parts ! 0));
             minor = fst (Atoi (parts ! 1));
             patch = fst (Atoi (parts ! 2));
             versionNum = wrap64 (wrap64 (wrap64 (major * 10000) + wrap64 (minor * 100)) + patch)
         in versionNum < 30200))"

text \<open>
  The version as the specification words it: a version string is parsed into three
  integers, \<open>major.minor.patch\<close>, and is too old when that fails or when the three
  numbers are below 3.2.0.
\<close>

definition version_numbers :: "string \<Rightarrow> (int \<times> int \<times> int) option" where
  "version_numbers version =
     (case Split version CHR ''.'' of
        [x, y, z] \<Rightarrow>
          if x \<noteq> [] \<and> y \<noteq> [] \<and> z \<noteq> [] \<and> list_all isDigit (x @ y @ z)
          then Some (decimal x, decimal y, decimal z) else None
      | _ \<Rightarrow> None)"

fun below_minimum :: "int \<times> int \<times> int \<Rightarrow> bool" where
  "below_minimum (major, minor, patch) = (major < 3 \<or> (major = 3 \<and> minor < 2))"

definition spec_too_old :: "string \<Rightarrow> bool" where
  "spec_too_old version =
     (case version_numbers version of None \<Rightarrow> True | Some numbers \<Rightarrow> below_minimum numbers)"

text \<open>The versions on which the number \<open>major*10000 + minor*100 + patch\<close> orders
  as the versions do: a major number below \<open>10^14\<close> (the number then stays within
  the range of \<open>int\<close>) and minor and patch numbers below 100, or no version at
  all.\<close>

definition in_encoding_range :: "string \<Rightarrow> bool" where
  "in_encoding_range version =
     (case version_numbers version of
        None \<Rightarrow> True
      | Some (major, minor, patch) \<Rightarrow> major < 10 ^ 14 \<and> minor < 100 \<and> patch < 100)"

definition rsync_paths :: "string list" where
  "rsync_paths = [''/opt/homebrew/bin/rsync'', ''/usr/local/bin/rsync'', ''/usr/bin/rsync'']"

definition findRsync :: "Backup \<Rightarrow> env \<Rightarrow> Backup \<times> error option" where
  "findRsync b e =
     (if ForceSystemRsync (config b)
      then (b\<lparr>config := (config b)\<lparr>RsyncBin := ''/usr/bin/rsync''\<rparr>\<rparr>, None)
      else
        (let b1 = (case find (binary_exists e) rsync_paths of
                     Some path \<Rightarrow> b\<lparr>config := (config b)\<lparr>RsyncBin := path\<rparr>\<rparr>
                   | None \<Rightarrow> b)
         in if RsyncBin (config b1) = [] then (b1, Some BinaryNotFound)
            else if RsyncBin (config b1) = ''/usr/bin/rsync'' \<and> \<not> ForceSystemRsync (config b1)
            then
              (case getRsyncVersion b1 e of
                 (version, None) \<Rightarrow>
                   if isOldRsync version then (b1, Some IncompatibleBinary) else (b1, None)
               | (version, Some err) \<Rightarrow> (b1, None))
            else (b1, None)))"

definition getLastBackup :: "Backup \<Rightarrow> world \<Rightarrow> string" where
  "getLastBackup b w =
     (case os_Readlink (dest w) ''latest'' of
        None \<Rightarrow> ''(none)''
      | Some target \<Rightarrow> Base target)"

subsection \<open>The transfer\<close>

text \<open>
  The argument vector of \<open>runRsync\<close>. \<open>probe\<close> is the result of
  \<open>getRsyncVersion\<close>; \<open>last_exists\<close> and \<open>exclude_found\<close> are the results of the
  two calls of \<open>os.Stat\<close> (no error), on the path of the last backup and on the
  exclusion list.
\<close>

definition rsyncArgs ::
  "variables \<Rightarrow> string \<Rightarrow> string \<times> error option \<Rightarrow> bool \<Rightarrow> bool \<Rightarrow> Backup \<Rightarrow> string
    \<Rightarrow> string list"
where
  "rsyncArgs vars os probe last_exists exclude_found b lastBackup =
     (let args0 = RsyncBaseArgs vars;
          args1 = (if isSSHPath (Source (config b)) \<or> isSSHPath (Destination (config b))
                   then args0 @ RsyncSSHArgs vars else args0);
          args2 = (if ShowProgress (config b) then args1 @ [''--progress''] else args1);
          args3 = (case probe of
                     (version, None) \<Rightarrow>
                       if os = ''darwin'' \<and> \<not> isOldRsync version
                       then args2 @ RsyncMacOSArgs vars else args2
                   | (version, Some err) \<Rightarrow> args2);
          args4 = (if lastBackup \<noteq> ''(none)'' then
                     (let lastBackupPath = filepath_Join [Destination (config b), lastBackup] in
                      if last_exists then args3 @ [''--link-dest='' @ lastBackupPath] else args3)
                   else args3);
          args5 = (if exclude_found
                   then args4 @ [''--exclude-from='' @ ExcludeList (config b)] else args4);
          args6 = (if DryRun (config b) then args5 @ [''--dry-run''] else args5)
      in args6 @ [Source (config b) @ ''/'', snapDir b])"

text \<open>\<open>os.Stat\<close> of \<open>filepath.Join(destination, name)\<close> for the last element of a
  link target: the destination itself, its parent, or one of its children.\<close>

definition stat_last :: "world \<Rightarrow> string \<Rightarrow> bool" where
  "stat_last w name =
     (name = ''.'' \<or> name = ''..'' \<or> name = ''/''
      \<or> (case Stat (dest w) name of Found n \<Rightarrow> True | failure \<Rightarrow> False))"

definition runRsync :: "variables \<Rightarrow> Backup \<Rightarrow> env \<Rightarrow> world \<Rightarrow> string \<Rightarrow> world \<times> error option" where
  "runRsync vars b e w lastBackup =
     (let args = rsyncArgs vars (goos e) (getRsyncVersion b e) (stat_last w lastBackup)
                   (ExcludeList (config b) \<noteq> [] \<and> exclude_exists e) b lastBackup
      in case rsync e (RsyncBin (config b)) args (dest w) of
           (ok, d, out) \<Rightarrow> (w\<lparr>dest := d\<rparr>, if ok then None else Some ProcessError))"

text \<open>
  \<open>parseTransferredGB\<close>: the patterns in their order, each given by its literal
  prefix and suffix around the group \<open>([0-9,]+)\<close>. The result is the float64
  quotient, an exact rational number (a real here).
\<close>

definition patterns :: "(string \<times> string) list" where
  "patterns =
     [(''Total transferred file size: '', '' bytes''),
      (''sent '', '' bytes''),
      (''total size is '', [])]"

fun parse_with :: "(string \<times> string) list \<Rightarrow> string \<Rightarrow> real" where
  "parse_with [] statsOutput = 0"
| "parse_with ((pre, suf) # rest) statsOutput =
     (case FindSubmatch pre suf statsOutput of
        None \<Rightarrow> parse_with rest statsOutput
      | Some captured \<Rightarrow>
          (case ParseInt (ReplaceAll_char captured CHR '','') of
             (bytes, None) \<Rightarrow> of_int (float64_of_int bytes) / (1024 * 1024 * 1024)
           | (bytes, Some err) \<Rightarrow> parse_with rest statsOutput))"

text \<open>What one pattern yields: the byte count of its leftmost match, when there is a
  match and its digits parse.\<close>

definition pattern_bytes :: "string \<times> string \<Rightarrow> string \<Rightarrow> int option" where
  "pattern_bytes p statsOutput =
     (case FindSubmatch (fst p) (snd p) statsOutput of
        None \<Rightarrow> None
      | Some captured \<Rightarrow>
          (case ParseInt (ReplaceAll_char captured CHR '','') of
             (bytes, None) \<Rightarrow> Some bytes
           | (bytes, Some err) \<Rightarrow> None))"

definition parseTransferredGB :: "string \<Rightarrow> real" where
  "parseTransferredGB statsOutput = parse_with patterns statsOutput"

subsection \<open>Verification, finalization, the pointer\<close>

text \<open>\<open>verifyBackup\<close>: only "not exist" stops at \<open>os.Stat\<close>; after any other
  failure of \<open>os.Stat\<close>, and for what is no directory, \<open>os.ReadDir\<close> fails.\<close>

definition verifyBackup :: "Backup \<Rightarrow> world \<Rightarrow> error option" where
  "verifyBackup b w =
     (if DryRun (config b) then None
      else
        (case Stat (dest w) (incomplete_name b) of
           NotExist \<Rightarrow> Some (SnapshotMissing (snapDir b))
         | TooManyLinks \<Rightarrow> Some SnapshotReadError
         | Found (Dir entries) \<Rightarrow> if entries = [] then Some SnapshotEmpty else None
         | Found n \<Rightarrow> Some SnapshotReadError))"

definition finalizeBackup :: "Backup \<Rightarrow> env \<Rightarrow> world \<Rightarrow> Backup \<times> world \<times> error option" where
  "finalizeBackup b e w =
     (if DryRun (config b) then (b, w, None)
      else
        (let finalDir = filepath_Join [Destination (config b), timestamp b] in
         case os_Rename e (incomplete_name b) (timestamp b) (dest w) of
           None \<Rightarrow> (b, w, Some FinalizeRenameError)
         | Some d \<Rightarrow> (b\<lparr>snapDir := finalDir\<rparr>, w\<lparr>dest := d\<rparr>, None)))"

definition updateLatestLink :: "Backup \<Rightarrow> env \<Rightarrow> world \<Rightarrow> world \<times> error option" where
  "updateLatestLink b e w =
     (let d1 = (case os_Remove ''latest'' (dest w) of None \<Rightarrow> dest w | Some d \<Rightarrow> d) in
      case os_Symlink e (timestamp b) ''latest'' d1 of
        None \<Rightarrow> (w\<lparr>dest := d1\<rparr>, Some OsError)
      | Some d2 \<Rightarrow> (w\<lparr>dest := d2\<rparr>, None))"

subsection \<open>Retention\<close>

text \<open>The sort of \<open>cleanupOldBackups\<close>: for each \<open>i\<close>, every later \<open>j\<close> is compared
  with position \<open>i\<close> and exchanged when smaller.\<close>

definition exchange :: "nat \<Rightarrow> nat \<Rightarrow> string list \<Rightarrow> string list" where
  "exchange i j backups =
     (if backups ! i > backups ! j
      then backups[i := backups ! j, j := backups ! i]
      else backups)"

definition inner_loop :: "nat \<Rightarrow> string list \<Rightarrow> string list" where
  "inner_loop i backups = fold (exchange i) [i + 1 ..< length backups] backups"

definition sort_backups :: "string list \<Rightarrow> string list" where
  "sort_backups backups = fold inner_loop [0 ..< length backups - 1] backups"

text \<open>The names that count as backups: directories that are not \<open>latest\<close> and do not
  end in \<open>_INCOMPLETE\<close>.\<close>

definition backup_names :: "directory \<Rightarrow> string list" where
  "backup_names entries =
     map fst (filter (\<lambda>(name, n). IsDir n \<and> name \<noteq> ''latest''
                          \<and> \<not> HasSuffix name ''_INCOMPLETE'') entries)"

text \<open>The candidates as the specification words them: the children that are not the
  pointer entry and do not carry the incomplete suffix.\<close>

definition spec_candidates :: "directory \<Rightarrow> string list" where
  "spec_candidates entries =
     filter (\<lambda>name. name \<noteq> ''latest'' \<and> \<not> HasSuffix name ''_INCOMPLETE'') (map fst entries)"

definition cleanupOldBackups :: "Backup \<Rightarrow> env \<Rightarrow> world \<Rightarrow> world \<times> error option" where
  "cleanupOldBackups b e w =
     (if Keep (config b) \<le> 0 then (w, None)
      else
        (case os_ReadDir e w of
           None \<Rightarrow> (w, Some OsError)
         | Some entries \<Rightarrow>
             (let backups = backup_names entries in
              if int (length backups) \<le> Keep (config b) then (w, None)
              else
                (let sorted = sort_backups backups;
                     toRemove = nat (int (length backups) - Keep (config b))
                 in (fold (os_RemoveAll e) (take toRemove sorted) w, None)))))"

subsection \<open>The run\<close>

text \<open>
  \<open>Backup.Run\<close> in three parts. \<open>transfer_and_finalize\<close> is the run from the
  search for the binary to the finalization; \<open>publish_and_prune\<close> is what follows it.
  \<open>Run\<close> is the whole, with the deferred release of the lock on every return
  after the lock was taken. The signal handler runs concurrently and is not modelled.
\<close>

definition transfer_and_finalize ::
  "variables \<Rightarrow> Backup \<Rightarrow> env \<Rightarrow> world \<Rightarrow> Backup \<times> world \<times> error option"
where
  "transfer_and_finalize vars b e w =
     (case findRsync b e of
        (b1, Some err) \<Rightarrow> (b1, w, Some (Wrapped FindRsync err))
      | (b1, None) \<Rightarrow>
          (let lastBackup = getLastBackup b1 w in
           case runRsync vars b1 e w lastBackup of
             (w1, Some err) \<Rightarrow> (b1, w1, Some (Wrapped Rsync err))
           | (w1, None) \<Rightarrow>
               (case verifyBackup b1 w1 of
                  Some err \<Rightarrow> (b1, w1, Some (Wrapped BackupVerification err))
                | None \<Rightarrow>
                    (case finalizeBackup b1 e w1 of
                       (b2, w2, Some err) \<Rightarrow> (b2, w2, Some (Wrapped FinalizeBackup err))
                     | (b2, w2, None) \<Rightarrow> (b2, w2, None)))))"

definition publish_and_prune :: "Backup \<Rightarrow> env \<Rightarrow> world \<Rightarrow> world \<times> error option" where
  "publish_and_prune b e w =
     (case updateLatestLink b e w of
        (w1, Some err) \<Rightarrow> (w1, Some (Wrapped UpdateLatestLink err))
      | (w1, None) \<Rightarrow>
          (case cleanupOldBackups b e w1 of
             (w2, warning) \<Rightarrow> (w2, None)))"

definition Run :: "variables \<Rightarrow> Backup \<Rightarrow> env \<Rightarrow> world \<Rightarrow> world \<times> error option" where
  "Run vars b e w =
     (case validateConfig b of
        Some err \<Rightarrow> (w, Some (Wrapped ConfigValidation err))
      | None \<Rightarrow>
          (case validatePaths b e of
             Some err \<Rightarrow> (w, Some (Wrapped PathValidation err))
           | None \<Rightarrow>
               (case checkDiskSpace b (df_output e) of
                  Some err \<Rightarrow> (w, Some (Wrapped DiskSpaceCheck err))
                | None \<Rightarrow>
                    (case createLock b e w of
                       (w1, Some err) \<Rightarrow> (w1, Some (Wrapped CreateLock err))
                     | (w1, None) \<Rightarrow>
                         (let (w3, result) =
                            (case setupLogging b e of
                               Some err \<Rightarrow> (w1, Some (Wrapped SetupLogging err))
                             | None \<Rightarrow>
                                 (case transfer_and_finalize vars b e w1 of
                                    (b2, w2, Some err) \<Rightarrow> (w2, Some err)
                                  | (b2, w2, None) \<Rightarrow> publish_and_prune b2 e w2))
                          in (removeLock b e w3, result))))))"

text \<open>The exit status of \<open>main\<close> after \<open>Run\<close>: 1 when it returned an error.\<close>

definition exit_status :: "error option \<Rightarrow> int" where
  "exit_status result = (if result = None then 0 else 1)"

section \<open>Example configurations, states and environments\<close>

definition example_config :: Config where
  "example_config =
     \<lparr>Source = ''/data'', Destination = ''/backup'', Keep = 1, CleanupAtPercent = 95,
      ExcludeList = [], LogFile = ''/var/log/backup.log'',
      LockFile = ''/tmp/backupRunningLock'', DryRun = False, ForceSystemRsync = False,
      ShowProgress = False, RsyncBin = []\<rparr>"

text \<open>2025-01-03 00:00:00 UTC and one day later.\<close>

definition example_time :: Time where
  "example_time = \<lparr>unix = 1735862400, zone_name = ''UTC'', zone_offset = 0\<rparr>"

definition next_day :: Time where
  "next_day = \<lparr>unix = 1735948800, zone_name = ''UTC'', zone_offset = 0\<rparr>"

definition example_backup :: Backup where
  "example_backup = NewBackup example_config example_time"

text \<open>A run with every optional group of arguments: a remote source, progress,
  an exclusion list, dry run.\<close>

definition remote_backup :: Backup where
  "remote_backup =
     NewBackup (example_config\<lparr>Source := ''user@server.com:/home/user/data'',
                  ShowProgress := True, ExcludeList := ''/etc/backup-exclude.list'',
                  DryRun := True\<rparr>) example_time"

definition backup_keep2 :: Backup where
  "backup_keep2 = example_backup\<lparr>config := example_config\<lparr>Keep := 2\<rparr>\<rparr>"

text \<open>Noon on 1 March 2025 (CET) and noon on 1 April 2025 (CEST) in Berlin.\<close>

definition march_cet :: Time where
  "march_cet = \<lparr>unix = 1740826800, zone_name = ''CET'', zone_offset = 3600\<rparr>"

definition april_cest :: Time where
  "april_cest = \<lparr>unix = 1743501600, zone_name = ''CEST'', zone_offset = 7200\<rparr>"

definition df_report :: "string \<Rightarrow> string" where
  "df_report percent =
     ''Filesystem      Size  Used Avail Use% Mounted on'' @ [CHR 0x0A]
       @ ''/dev/sda1       100G   50G   50G  '' @ percent @ '' /backup'' @ [CHR 0x0A]"

text \<open>An rsync that leaves the destination alone under \<open>--dry-run\<close> and otherwise
  fills the directory named by its last argument.\<close>

definition example_rsync :: "string \<Rightarrow> string list \<Rightarrow> directory \<Rightarrow> bool \<times> directory \<times> string" where
  "example_rsync bin args d =
     (if ''--dry-run'' \<in> set args then (True, d, [])
      else (True, put_child (Base (last args)) (Dir [''data'']) d,
            ''sent 1,234 bytes  received 35 bytes''))"

definition example_env :: env where
  "example_env =
     \<lparr>goos = ''linux'', mkdirall_dest_ok = True, source_exists = True, df_source_ok = True,
      df_dest_ok = True, df_output = Some (df_report ''50%''), mkdir_lock_fails = False,
      removeall_lock_fails = False, log_dir_ok = True, log_open_ok = True,
      binary_exists = (\<lambda>path. path = ''/usr/bin/rsync''),
      version_cmd = (\<lambda>path. Some ''rsync  version 3.2.7  protocol version 31''),
      exclude_exists = False, rsync = example_rsync, rename_fails = False,
      symlink_fails = False, readdir_dest_fails = False, removeall_fails = (\<lambda>name. False),
      removeall_left = (\<lambda>name. [])\<rparr>"

text \<open>The line of the statistics that the specification quotes.\<close>

definition stats_line :: string where
  "stats_line = ''Total transferred file size: 1,073,741,824 bytes''"

text \<open>Two finalized snapshots and the pointer to the newer one; no lock.\<close>

definition example_world :: world where
  "example_world =
     \<lparr>dest = [(''UTC_2025-01-01_00.00.00'', Dir [''data'']),
              (''UTC_2025-01-02_00.00.00'', Dir [''data'']),
              (''latest'', Symlink ''UTC_2025-01-02_00.00.00'')],
      lock = False\<rparr>"

text \<open>The same snapshots beside a log file, which the README's configuration keeps
  in the destination.\<close>

definition world_with_log :: world where
  "world_with_log =
     \<lparr>dest = [(''UTC_2025-01-01_00.00.00'', Dir [''data'']),
              (''UTC_2025-01-02_00.00.00'', Dir [''data'']),
              (''backup.log'', File)],
      lock = False\<rparr>"

text \<open>A destination where \<open>latest\<close> is a directory that is not empty.\<close>

definition world_latest_dir :: world where
  "world_latest_dir = \<lparr>dest = [(''latest'', Dir [''old''])], lock = False\<rparr>"

section \<open>Properties of the library functions\<close>

lemma HasPrefix_single: "HasPrefix s [c] \<longleftrightarrow> s \<noteq> [] \<and> hd s = c"
  by (cases s) auto

lemma Contains_single: "Contains s [c] \<longleftrightarrow> c \<in> set s"
  by (induction s) (auto simp: HasPrefix_single)

lemma isSSHPath_iff: "isSSHPath path \<longleftrightarrow> CHR ''@'' \<in> set path \<and> CHR '':'' \<in> set path"
  by (simp add: isSSHPath_def Contains_single)

section \<open>Loading the configuration\<close>

text \<open>
  C10. \<open>LoadConfig\<close> rejects no out-of-range number and reports no malformed
  file. With \<open>loaded\<close> the configuration before validation (the defaults, overwritten
  by the file when it was read and decoded): the only error is the one for an empty
  source or destination, returned exactly when one of them is empty in \<open>loaded\<close>;
  otherwise the result is \<open>loaded\<close> with a retention count below 1 replaced by 7 and
  a threshold outside 50..95 replaced by 90, so that a result without error has a
  retention count of at least 1 and a threshold within 50..95. When the file cannot
  be read or decoded, \<open>loaded\<close> is the default configuration, with no error of its
  own.
\<close>

theorem LoadConfig_never_rejects:
  fixes defaults :: Config and ReadFile Unmarshal filename
  defines "loaded \<equiv> load_file defaults ReadFile Unmarshal filename"
  defines "result \<equiv> LoadConfig defaults ReadFile Unmarshal filename"
  defines "keep' \<equiv> (if Keep loaded < 1 then 7 else Keep loaded)"
  defines "percent' \<equiv> (if CleanupAtPercent loaded < 50 \<or> CleanupAtPercent loaded > 95
                         then 90 else CleanupAtPercent loaded)"
  shows "snd result = (if Source loaded = [] \<or> Destination loaded = []
                        then Some SourceAndDestinationRequired else None)
       \<and> fst result = (if Source loaded = [] \<or> Destination loaded = [] then loaded
                        else loaded\<lparr>Keep := keep', CleanupAtPercent := percent'\<rparr>)
       \<and> (snd result = None \<longrightarrow>
            1 \<le> Keep (fst result) \<and> 50 \<le> CleanupAtPercent (fst result)
            \<and> CleanupAtPercent (fst result) \<le> 95)
       \<and> (ReadFile filename = None \<or> (\<exists>data. ReadFile filename = Some data \<and> Unmarshal data = None)
            \<longrightarrow> loaded = defaults \<and> result = basic_validation defaults)"
  unfolding result_def loaded_def keep'_def percent'_def LoadConfig_def
  by (auto simp: basic_validation_def load_file_def Let_def split: option.splits)

theorem LoadConfig_never_rejects_witness:
  "LoadConfig (example_config\<lparr>Keep := 0, CleanupAtPercent := 99\<rparr>) (\<lambda>name. None) (\<lambda>data. None)
     ''config.json''
   = (example_config\<lparr>Keep := 7, CleanupAtPercent := 90\<rparr>, None)
   \<and> LoadConfig DefaultConfig (\<lambda>name. None) (\<lambda>data. None) ''config.json''
     = (DefaultConfig, None)"
  using LoadConfig_never_rejects
    [of "example_config\<lparr>Keep := 0, CleanupAtPercent := 99\<rparr>" "\<lambda>name. None" "\<lambda>data. None"
        "''config.json''"]
    LoadConfig_never_rejects
    [of DefaultConfig "\<lambda>name. None" "\<lambda>data. None" "''config.json''"]
  by (simp add: example_config_def DefaultConfig_def basic_validation_def)

section \<open>The disk-space check\<close>

lemma checkDiskSpace_local:
  "\<not> isSSHPath (Destination (config b)) \<Longrightarrow>
   checkDiskSpace b (Some out) =
     (if length (Split out CHR 0x0A) < 2 then Some UnexpectedDfOutput
      else if length (Fields (Split out CHR 0x0A ! 1)) < 5 then Some UnexpectedDfFormat
      else (case Atoi (TrimSuffix (Fields (Split out CHR 0x0A ! 1) ! 4) ''%'') of
              (usage, Some err) \<Rightarrow> Some (DiskUsageParseError err)
            | (usage, None) \<Rightarrow>
                if usage \<ge> CleanupAtPercent (config b)
                then Some (DiskThresholdExceeded usage (CleanupAtPercent (config b)))
                else None))"
  by (simp add: checkDiskSpace_def Let_def)

lemma checkDiskSpace_skipped_iff:
  "(\<forall>df. checkDiskSpace b df = None) \<longleftrightarrow> isSSHPath (Destination (config b))"
proof
  assume "\<forall>df. checkDiskSpace b df = None"
  then have "checkDiskSpace b None = None" by blast
  then show "isSSHPath (Destination (config b))"
    by (simp add: checkDiskSpace_def split: if_splits)
next
  assume "isSSHPath (Destination (config b))"
  then show "\<forall>df. checkDiskSpace b df = None"
    by (simp add: checkDiskSpace_def)
qed

lemma checkDiskSpace_exceeded_iff:
  assumes "\<not> isSSHPath (Destination (config b))"
  shows "checkDiskSpace b df = Some (DiskThresholdExceeded u t) \<longleftrightarrow>
           (\<exists>out. df = Some out \<and> 2 \<le> length (Split out CHR 0x0A)
              \<and> 5 \<le> length (Fields (Split out CHR 0x0A ! 1))
              \<and> Atoi (TrimSuffix (Fields (Split out CHR 0x0A ! 1) ! 4) ''%'') = (u, None)
              \<and> t = CleanupAtPercent (config b) \<and> u \<ge> CleanupAtPercent (config b))"
proof (cases df)
  case None
  then show ?thesis by (simp add: checkDiskSpace_def)
next
  case (Some out)
  show ?thesis unfolding Some checkDiskSpace_local[OF assms, of out]
    by (auto split: prod.splits option.splits)
qed

lemma checkDiskSpace_unparsed:
  assumes "\<not> isSSHPath (Destination (config b))"
  shows "(length (Split out CHR 0x0A) < 2
            \<longrightarrow> checkDiskSpace b (Some out) = Some UnexpectedDfOutput)
       \<and> (2 \<le> length (Split out CHR 0x0A) \<and> length (Fields (Split out CHR 0x0A ! 1)) < 5
            \<longrightarrow> checkDiskSpace b (Some out) = Some UnexpectedDfFormat)
       \<and> (2 \<le> length (Split out CHR 0x0A) \<and> 5 \<le> length (Fields (Split out CHR 0x0A ! 1))
            \<longrightarrow> (\<forall>err. snd (Atoi (TrimSuffix (Fields (Split out CHR 0x0A ! 1) ! 4) ''%'')) = Some err
                  \<longrightarrow> checkDiskSpace b (Some out) = Some (DiskUsageParseError err)))"
  by (simp add: checkDiskSpace_local[OF assms] split: prod.splits)

text \<open>
  C8. With \<open>destination\<close> the configured destination: the remote-path heuristic
  holds exactly when the path contains both an \<open>@\<close> and a \<open>:\<close>; the check succeeds
  whatever the usage probe gives (it is skipped) exactly when the heuristic holds.
  Otherwise the check fails with the threshold error for \<open>usage\<close> and \<open>threshold\<close>
  exactly when the probe gave a report with at least two lines whose second line has
  at least five fields, the fifth field without its \<open>%\<close> parses as the integer
  \<open>usage\<close>, \<open>threshold\<close> is the configured threshold and \<open>usage \<ge> threshold\<close>; a
  report with fewer lines, fewer fields or a fifth field that does not parse gives
  the corresponding parse error, never success.
\<close>

theorem checkDiskSpace_spec:
  fixes b :: Backup and df :: "string option" and usage threshold :: int
  defines "destination \<equiv> Destination (config b)"
  shows "(isSSHPath destination \<longleftrightarrow> CHR ''@'' \<in> set destination \<and> CHR '':'' \<in> set destination)
    \<and> ((\<forall>probe. checkDiskSpace b probe = None) \<longleftrightarrow> isSSHPath destination)
    \<and> (\<not> isSSHPath destination \<longrightarrow>
         (checkDiskSpace b df = Some (DiskThresholdExceeded usage threshold) \<longleftrightarrow>
            (\<exists>out. df = Some out \<and> 2 \<le> length (Split out CHR 0x0A)
               \<and> 5 \<le> length (Fields (Split out CHR 0x0A ! 1))
               \<and> Atoi (TrimSuffix (Fields (Split out CHR 0x0A ! 1) ! 4) ''%'') = (usage, None)
               \<and> threshold = CleanupAtPercent (config b)
               \<and> usage \<ge> CleanupAtPercent (config b))))
    \<and> (\<not> isSSHPath destination \<longrightarrow>
         (\<forall>out.
            (length (Split out CHR 0x0A) < 2
               \<longrightarrow> checkDiskSpace b (Some out) = Some UnexpectedDfOutput)
          \<and> (2 \<le> length (Split out CHR 0x0A) \<and> length (Fields (Split out CHR 0x0A ! 1)) < 5
               \<longrightarrow> checkDiskSpace b (Some out) = Some UnexpectedDfFormat)
          \<and> (2 \<le> length (Split out CHR 0x0A) \<and> 5 \<le> length (Fields (Split out CHR 0x0A ! 1))
               \<longrightarrow> (\<forall>err. snd (Atoi (TrimSuffix (Fields (Split out CHR 0x0A ! 1) ! 4) ''%'')) = Some err
                     \<longrightarrow> checkDiskSpace b (Some out) = Some (DiskUsageParseError err)))))"
  unfolding destination_def
  apply (intro conjI impI allI)
       apply (rule isSSHPath_iff)
      apply (rule checkDiskSpace_skipped_iff)
     apply (erule checkDiskSpace_exceeded_iff)
    apply (simp add: checkDiskSpace_unparsed)
   apply (simp add: checkDiskSpace_unparsed)
  apply (simp add: checkDiskSpace_unparsed)
  done

theorem checkDiskSpace_spec_witness:
  "\<not> isSSHPath (Destination (config example_backup))
   \<and> checkDiskSpace example_backup (Some (df_report ''96%'')) = Some (DiskThresholdExceeded 96 95)
   \<and> checkDiskSpace example_backup (Some (df_report ''50%'')) = None
   \<and> checkDiskSpace example_backup (Some (df_report ''n/a'')) = Some (DiskUsageParseError ErrSyntax)
   \<and> checkDiskSpace example_backup (Some ''df: no output'') = Some UnexpectedDfOutput"
proof -
  have local: "\<not> isSSHPath (Destination (config example_backup))"
    by code_simp
  have report: "2 \<le> length (Split (df_report ''96%'') CHR 0x0A)"
    "5 \<le> length (Fields (Split (df_report ''96%'') CHR 0x0A ! 1))"
    "Atoi (TrimSuffix (Fields (Split (df_report ''96%'') CHR 0x0A ! 1) ! 4) ''%'') = (96, None)"
    "95 = CleanupAtPercent (config example_backup)"
    by code_simp+
  have bad: "2 \<le> length (Split (df_report ''n/a'') CHR 0x0A)"
    "5 \<le> length (Fields (Split (df_report ''n/a'') CHR 0x0A ! 1))"
    "snd (Atoi (TrimSuffix (Fields (Split (df_report ''n/a'') CHR 0x0A ! 1) ! 4) ''%'')) = Some ErrSyntax"
    "length (Split ''df: no output'' CHR 0x0A) < 2"
    by code_simp+
  note spec = checkDiskSpace_spec[of example_backup "Some (df_report ''96%'')" 96 95]
  have 1: "checkDiskSpace example_backup (Some (df_report ''96%'')) = Some (DiskThresholdExceeded 96 95)"
    using spec local report by auto
  have 2: "checkDiskSpace example_backup (Some (df_report ''n/a'')) = Some (DiskUsageParseError ErrSyntax)"
    using spec local bad by blast
  have 3: "checkDiskSpace example_backup (Some ''df: no output'') = Some UnexpectedDfOutput"
    using spec local bad by blast
  have 4: "checkDiskSpace example_backup (Some (df_report ''50%'')) = None"
    by code_simp
  from local 1 2 3 4 show ?thesis by blast
qed

section \<open>The order of the first steps\<close>

text \<open>
  C6. When the configuration and the paths are valid and the disk-space check
  fails with the threshold error, \<open>Run\<close> returns that error (wrapped as the failure
  of the disk-space check) and the state it was started in: the step that takes the
  lock is not reached, whether or not a lock exists, and the lock is as before.
\<close>

theorem threshold_abort_leaves_lock:
  assumes "validateConfig b = None" and "validatePaths b e = None"
    and "checkDiskSpace b (df_output e) = Some (DiskThresholdExceeded usage threshold)"
  shows "Run vars b e w
           = (w, Some (Wrapped DiskSpaceCheck (DiskThresholdExceeded usage threshold)))
       \<and> lock (fst (Run vars b e w)) = lock w"
  using assms by (simp add: Run_def)

theorem threshold_abort_leaves_lock_witness:
  "Run program_vars example_backup (example_env\<lparr>df_output := Some (df_report ''96%'')\<rparr>)
       example_world
     = (example_world, Some (Wrapped DiskSpaceCheck (DiskThresholdExceeded 96 95)))
   \<and> lock example_world = False"
proof -
  have "validateConfig example_backup = None"
    "validatePaths example_backup (example_env\<lparr>df_output := Some (df_report ''96%'')\<rparr>) = None"
    "checkDiskSpace example_backup
       (df_output (example_env\<lparr>df_output := Some (df_report ''96%'')\<rparr>))
     = Some (DiskThresholdExceeded 96 95)"
    "lock example_world = False"
    by code_simp+
  then show ?thesis
    using threshold_abort_leaves_lock
      [of example_backup "example_env\<lparr>df_output := Some (df_report ''96%'')\<rparr>" 96 95
          program_vars example_world]
    by simp
qed

section \<open>Retention\<close>

text \<open>The exchange sort of \<open>cleanupOldBackups\<close> sorts: after the inner loop for \<open>i\<close>,
  position \<open>i\<close> holds a least element of the positions from \<open>i\<close> on.\<close>

lemma length_exchange: "length (exchange i j xs) = length xs"
  by (simp add: exchange_def)

lemma mset_exchange: "i < length xs \<Longrightarrow> j < length xs \<Longrightarrow> mset (exchange i j xs) = mset xs"
  by (simp add: exchange_def mset_swap)

lemma fold_exchange:
  "i < length xs \<Longrightarrow> \<forall>j\<in>set js. i < j \<and> j < length xs \<Longrightarrow> distinct js \<Longrightarrow>
     length (fold (exchange i) js xs) = length xs
   \<and> mset (fold (exchange i) js xs) = mset xs
   \<and> (\<forall>k<i. fold (exchange i) js xs ! k = xs ! k)
   \<and> (\<forall>j\<in>set js. fold (exchange i) js xs ! i \<le> fold (exchange i) js xs ! j)"
proof (induction js rule: rev_induct)
  case Nil
  then show ?case by simp
next
  case (snoc j js)
  let ?ys = "fold (exchange i) js xs"
  from snoc have ih: "length ?ys = length xs" "mset ?ys = mset xs" "\<forall>k<i. ?ys ! k = xs ! k"
    "\<forall>j'\<in>set js. ?ys ! i \<le> ?ys ! j'"
    by auto
  from snoc.prems have j: "i < j" "j < length xs" "j \<notin> set js" by auto
  have fold_snoc: "fold (exchange i) (js @ [j]) xs = exchange i j ?ys" by simp
  have 1: "length (exchange i j ?ys) = length xs" by (simp add: length_exchange ih)
  have 2: "mset (exchange i j ?ys) = mset xs"
    using snoc.prems(1) j ih by (simp add: mset_exchange)
  have 3: "\<forall>k<i. exchange i j ?ys ! k = xs ! k"
    using ih j by (auto simp: exchange_def)
  have 4: "\<forall>j'\<in>set (js @ [j]). exchange i j ?ys ! i \<le> exchange i j ?ys ! j'"
  proof
    fix j' assume "j' \<in> set (js @ [j])"
    then consider "j' = j" | "j' \<in> set js" "j' \<noteq> j" using j by auto
    then show "exchange i j ?ys ! i \<le> exchange i j ?ys ! j'"
    proof cases
      case 1
      then show ?thesis using j snoc.prems(1) ih(1) by (auto simp: exchange_def)
    next
      case 2
      then have "i < j'" "j' < length xs" using snoc.prems by auto
      moreover have "?ys ! i \<le> ?ys ! j'" using ih 2 by auto
      ultimately show ?thesis using j 2 snoc.prems(1) ih(1) by (auto simp: exchange_def)
    qed
  qed
  show ?case unfolding fold_snoc using 1 2 3 4 by blast
qed

lemma inner_loop_props:
  assumes "i < length xs"
  shows "length (inner_loop i xs) = length xs"
    and "mset (inner_loop i xs) = mset xs"
    and "k < i \<Longrightarrow> inner_loop i xs ! k = xs ! k"
    and "i < j \<Longrightarrow> j < length xs \<Longrightarrow> inner_loop i xs ! i \<le> inner_loop i xs ! j"
  using fold_exchange[of i xs "[i + 1 ..< length xs]"] assms
  by (auto simp: inner_loop_def)


lemma mset_drop_eq:
  assumes "take m zs = take m ys" "mset zs = mset ys"
  shows "mset (drop m zs) = mset (drop m ys)"
proof -
  have "mset (take m zs) + mset (drop m zs) = mset (take m ys) + mset (drop m ys)"
    using assms(2) by (metis append_take_drop_id mset_append)
  then show ?thesis using assms(1) by simp
qed

lemma fold_inner_loop:
  "m \<le> length xs \<Longrightarrow>
     length (fold inner_loop [0 ..< m] xs) = length xs
   \<and> mset (fold inner_loop [0 ..< m] xs) = mset xs
   \<and> (\<forall>a<m. \<forall>b. a < b \<and> b < length xs \<longrightarrow>
         fold inner_loop [0 ..< m] xs ! a \<le> fold inner_loop [0 ..< m] xs ! b)"
proof (induction m)
  case 0
  then show ?case by simp
next
  case (Suc m)
  let ?ys = "fold inner_loop [0 ..< m] xs"
  let ?zs = "inner_loop m ?ys"
  from Suc have ih: "length ?ys = length xs" "mset ?ys = mset xs"
    "\<forall>a<m. \<forall>b. a < b \<and> b < length xs \<longrightarrow> ?ys ! a \<le> ?ys ! b"
    by auto
  have m: "m < length ?ys" using Suc.prems ih(1) by simp
  have step: "fold inner_loop [0 ..< Suc m] xs = ?zs" by simp
  have len: "length ?zs = length xs" using inner_loop_props(1)[OF m] ih(1) by simp
  have ms: "mset ?zs = mset xs" using inner_loop_props(2)[OF m] ih(2) by simp
  have pre: "\<And>k. k < m \<Longrightarrow> ?zs ! k = ?ys ! k" using inner_loop_props(3)[OF m] by simp
  have tk: "take m ?zs = take m ?ys"
    by (rule nth_equalityI) (use len ih(1) pre in auto)
  have dr: "set (drop m ?zs) = set (drop m ?ys)"
    using mset_drop_eq[OF tk] inner_loop_props(2)[OF m] by (metis set_mset_mset)
  have ord: "?zs ! a \<le> ?zs ! b" if "a < Suc m" "a < b" "b < length xs" for a b
  proof (cases "a = m")
    case True
    then show ?thesis using inner_loop_props(4)[OF m, of b] that ih(1) by simp
  next
    case False
    then have am: "a < m" using that by simp
    obtain b' where b': "b' < length xs" "?ys ! b' = ?zs ! b" "m \<le> b' \<or> b' = b"
    proof (cases "b < m")
      case True
      with pre[OF True] \<open>b < length xs\<close> that show ?thesis by auto
    next
      case False
      then have "?zs ! b = drop m ?zs ! (b - m)" using \<open>b < length xs\<close> len by simp
      moreover have "b - m < length (drop m ?zs)" using \<open>b < length xs\<close> len False by simp
      ultimately have "?zs ! b \<in> set (drop m ?ys)" using dr by (metis nth_mem)
      then obtain k where "k < length (drop m ?ys)" "drop m ?ys ! k = ?zs ! b"
        by (metis in_set_conv_nth)
      then have "m + k < length xs" "?ys ! (m + k) = ?zs ! b" using ih(1) by auto
      with that show ?thesis by auto
    qed
    have "a < b'" using b'(3) am \<open>a < b\<close> by auto
    then have "?ys ! a \<le> ?ys ! b'" using ih(3) am b'(1) by blast
    then show ?thesis using pre[OF am] b'(2) by simp
  qed
  show ?case unfolding step using len ms ord by blast
qed

lemma sort_backups_sorted: "sorted (sort_backups xs)"
  unfolding sorted_iff_nth_mono_less
proof (intro allI impI)
  fix i j assume "i < j" "j < length (sort_backups xs)"
  moreover have "length (sort_backups xs) = length xs"
    using fold_inner_loop[of "length xs - 1" xs] by (simp add: sort_backups_def)
  ultimately show "sort_backups xs ! i \<le> sort_backups xs ! j"
    using fold_inner_loop[of "length xs - 1" xs] by (simp add: sort_backups_def)
qed

lemma mset_sort_backups: "mset (sort_backups xs) = mset xs"
  using fold_inner_loop[of "length xs - 1" xs] by (simp add: sort_backups_def)

lemma sort_backups_eq_sort: "sort_backups xs = sort xs"
  using properties_for_sort[OF mset_sort_backups sort_backups_sorted] by simp


lemma leftover_twice: "leftover left (leftover left n) = leftover left n"
  by (cases n) (simp_all add: leftover_def)

lemma IsDir_leftover: "IsDir (leftover left n) = IsDir n"
  by (cases n) (simp_all add: leftover_def IsDir_def)

lemma RemoveAll_step:
  "map (\<lambda>(k, n). if k \<in> set names then (k, leftover (removeall_left e k) n) else (k, n))
     (filter (\<lambda>(k, n). k \<notin> set names \<or> removeall_fails e k) (dest (os_RemoveAll e name w)))
   = map (\<lambda>(k, n). if k \<in> set (name # names) then (k, leftover (removeall_left e k) n) else (k, n))
       (filter (\<lambda>(k, n). k \<notin> set (name # names) \<or> removeall_fails e k) (dest w))"
proof (cases "removeall_fails e name")
  case True
  have "map (\<lambda>(k, n). if k \<in> set names then (k, leftover (removeall_left e k) n) else (k, n))
     (filter (\<lambda>(k, n). k \<notin> set names \<or> removeall_fails e k)
        (map (\<lambda>(k, n). if k = name then (k, leftover (removeall_left e name) n) else (k, n)) d))
   = map (\<lambda>(k, n). if k \<in> set (name # names) then (k, leftover (removeall_left e k) n) else (k, n))
       (filter (\<lambda>(k, n). k \<notin> set (name # names) \<or> removeall_fails e k) d)" for d
    using True by (induction d) (auto simp: leftover_twice split: if_splits)
  then show ?thesis using True by (simp add: os_RemoveAll_def)
next
  case False
  have "map (\<lambda>(k, n). if k \<in> set names then (k, leftover (removeall_left e k) n) else (k, n))
     (filter (\<lambda>(k, n). k \<notin> set names \<or> removeall_fails e k) (delete_child name d))
   = map (\<lambda>(k, n). if k \<in> set (name # names) then (k, leftover (removeall_left e k) n) else (k, n))
       (filter (\<lambda>(k, n). k \<notin> set (name # names) \<or> removeall_fails e k) d)" for d
    using False by (induction d) (auto simp: delete_child_def)
  then show ?thesis using False by (simp add: os_RemoveAll_def)
qed

lemma fold_RemoveAll:
  "fold (os_RemoveAll e) names w =
     w\<lparr>dest := map (\<lambda>(k, n). if k \<in> set names then (k, leftover (removeall_left e k) n)
                              else (k, n))
                  (filter (\<lambda>(k, n). k \<notin> set names \<or> removeall_fails e k) (dest w))\<rparr>"
proof (induction names arbitrary: w)
  case Nil
  have "map (\<lambda>(k, n). (k, n)) d = d" for d :: directory by (induction d) auto
  then show ?case by simp
next
  case (Cons name names)
  have "fold (os_RemoveAll e) (name # names) w = fold (os_RemoveAll e) names (os_RemoveAll e name w)"
    by simp
  also have "\<dots> = (os_RemoveAll e name w)
      \<lparr>dest := map (\<lambda>(k, n). if k \<in> set (name # names) then (k, leftover (removeall_left e k) n)
                              else (k, n))
                  (filter (\<lambda>(k, n). k \<notin> set (name # names) \<or> removeall_fails e k) (dest w))\<rparr>"
    unfolding Cons.IH RemoveAll_step ..
  also have "\<dots> = w
      \<lparr>dest := map (\<lambda>(k, n). if k \<in> set (name # names) then (k, leftover (removeall_left e k) n)
                              else (k, n))
                  (filter (\<lambda>(k, n). k \<notin> set (name # names) \<or> removeall_fails e k) (dest w))\<rparr>"
    by (simp add: os_RemoveAll_def)
  finally show ?case .
qed

lemma cleanupOldBackups_unfold:
  assumes "1 \<le> Keep (config b)" "\<not> readdir_dest_fails e"
  shows "cleanupOldBackups b e w =
     (if int (length (backup_names (dest w))) \<le> Keep (config b) then (w, None)
      else (w\<lparr>dest :=
              map (\<lambda>(k, n). if k \<in> set (take (length (backup_names (dest w)) - nat (Keep (config b)))
                                             (sort (backup_names (dest w))))
                            then (k, leftover (removeall_left e k) n) else (k, n))
                (filter (\<lambda>(k, n). k \<notin> set (take (length (backup_names (dest w)) - nat (Keep (config b)))
                                               (sort (backup_names (dest w))))
                                   \<or> removeall_fails e k) (dest w))\<rparr>, None))"
  using assms
  by (simp add: cleanupOldBackups_def os_ReadDir_def Let_def fold_RemoveAll sort_backups_eq_sort
        nat_diff_distrib')

lemma backup_names_leftover:
  "backup_names (map (\<lambda>(k, n). if Q k then (k, leftover (left k) n) else (k, n)) d) = backup_names d"
  by (induction d) (auto simp: backup_names_def IsDir_leftover split: if_splits)

lemma map_fst_leftover:
  "map fst (map (\<lambda>(k, n). if Q k then (k, leftover (left k) n) else (k, n)) d) = map fst d"
  by (induction d) (auto split: if_splits)

lemma map_leftover_none:
  "\<forall>(k, n)\<in>set d. \<not> Q k \<Longrightarrow>
     map (\<lambda>(k, n). if Q k then (k, leftover (left k) n) else (k, n)) d = d"
  by (induction d) (auto split: if_splits)

lemma backup_names_filter:
  "backup_names (filter (\<lambda>(k, n). P k) d) = filter P (backup_names d)"
  by (induction d) (auto simp: backup_names_def)

lemma distinct_backup_names: "distinct (map fst d) \<Longrightarrow> distinct (backup_names d)"
  unfolding backup_names_def by (rule distinct_map_filter)

lemma smallest_of_sorted:
  fixes xs :: "'a::linorder list" and m :: nat
  assumes "distinct xs"
  defines "D \<equiv> set (take m (sort xs))"
  shows "D \<subseteq> set xs" and "card D = min m (length xs)"
    and "set xs - D = set (drop m (sort xs))"
    and "\<forall>d\<in>D. \<forall>s\<in>set xs - D. d < s"
proof -
  have d: "distinct (sort xs)" using assms(1) by simp
  have split: "sort xs = take m (sort xs) @ drop m (sort xs)" by simp
  show 1: "D \<subseteq> set xs" unfolding D_def by (metis set_take_subset set_sort)
  show "card D = min m (length xs)"
    unfolding D_def using d by (simp add: distinct_card distinct_take min.commute)
  have disj: "set (take m (sort xs)) \<inter> set (drop m (sort xs)) = {}"
    using d by (metis distinct_append split)
  have un: "set xs = set (take m (sort xs)) \<union> set (drop m (sort xs))"
    by (metis set_append set_sort split)
  show 3: "set xs - D = set (drop m (sort xs))" unfolding D_def using disj un by auto
  have "sorted (take m (sort xs) @ drop m (sort xs))" by simp
  then have le: "\<forall>d\<in>set (take m (sort xs)). \<forall>s\<in>set (drop m (sort xs)). d \<le> s"
    unfolding sorted_append by blast
  show "\<forall>d\<in>D. \<forall>s\<in>set xs - D. d < s"
  proof (intro ballI)
    fix d s assume "d \<in> D" "s \<in> set xs - D"
    then have "d \<le> s" using le 3 unfolding D_def by blast
    moreover have "d \<noteq> s" using \<open>d \<in> D\<close> \<open>s \<in> set xs - D\<close> by blast
    ultimately show "d < s" by simp
  qed
qed


text \<open>
  C3, amended. The candidates are the children of the destination that are
  directories, are not named \<open>latest\<close> and do not end in \<open>_INCOMPLETE\<close>. For a
  retention count \<open>K \<ge> 1\<close>, a listing that can be read and has no name twice, one
  prune pass returns no error and changes nothing when there are at most \<open>K\<close>
  candidates. Otherwise it calls the recursive removal on exactly the set \<open>D\<close> of the
  \<open>count - K\<close> lexically smallest candidates (every name in \<open>D\<close> is smaller than every
  other candidate, and \<open>K\<close> candidates are outside \<open>D\<close>); the destination afterwards
  is the listing without the names of \<open>D\<close> whose removal did not fail (a name of
  \<open>D\<close> whose removal failed stays, with what could not be removed of it; everything
  outside \<open>D\<close> is untouched), and when no removal fails the surviving candidates are
  exactly the \<open>K\<close> greatest.
\<close>

theorem cleanupOldBackups_keeps_newest:
  fixes b e w
  defines "K \<equiv> Keep (config b)"
  defines "cand \<equiv> backup_names (dest w)"
  defines "w' \<equiv> fst (cleanupOldBackups b e w)"
  defines "D \<equiv> set (take (length cand - nat K) (sort cand))"
  assumes keep: "1 \<le> K" and readable: "\<not> readdir_dest_fails e"
    and names: "distinct (map fst (dest w))"
  shows "snd (cleanupOldBackups b e w) = None
    \<and> (int (length cand) \<le> K \<longrightarrow> w' = w)
    \<and> (K < int (length cand) \<longrightarrow>
          D \<subseteq> set cand \<and> card D = length cand - nat K
        \<and> (\<forall>d\<in>D. \<forall>s\<in>set cand - D. d < s)
        \<and> card (set cand - D) = nat K
        \<and> dest w' =
            map (\<lambda>(name, n). if name \<in> D then (name, leftover (removeall_left e name) n)
                             else (name, n))
              (filter (\<lambda>(name, n). name \<notin> D \<or> removeall_fails e name) (dest w))
        \<and> map fst (dest w')
            = map fst (filter (\<lambda>(name, n). name \<notin> D \<or> removeall_fails e name) (dest w))
        \<and> backup_names (dest w') = filter (\<lambda>name. name \<notin> D \<or> removeall_fails e name) cand
        \<and> lock w' = lock w
        \<and> ((\<forall>name. \<not> removeall_fails e name) \<longrightarrow>
              dest w' = filter (\<lambda>(name, n). name \<notin> D) (dest w)
            \<and> set (backup_names (dest w')) = set cand - D))"
proof -
  note unf = cleanupOldBackups_unfold[OF keep[unfolded K_def] readable, of w]
  have dc: "distinct cand" unfolding cand_def by (rule distinct_backup_names[OF names])
  note sm = smallest_of_sorted[OF dc, of "length cand - nat K"]
  have 1: "snd (cleanupOldBackups b e w) = None" unfolding unf by simp
  have 2: "int (length cand) \<le> K \<longrightarrow> w' = w"
    unfolding w'_def unf cand_def K_def by simp
  have 3: "D \<subseteq> set cand" "\<forall>d\<in>D. \<forall>s\<in>set cand - D. d < s"
    unfolding D_def using sm(1,4) by blast+
  have 4: "card D = length cand - nat K" unfolding D_def using sm(2) by simp
  have 5: "card (set cand - D) = nat K" if "K < int (length cand)"
  proof -
    have "card (set cand - D) = card (set cand) - card D"
      using 3(1) by (simp add: card_Diff_subset finite_subset[OF 3(1)])
    also have "\<dots> = length cand - (length cand - nat K)"
      using dc 4 by (simp add: distinct_card)
    also have "\<dots> = nat K" using that keep by simp
    finally show ?thesis .
  qed
  have 6: "dest w' =
            map (\<lambda>(name, n). if name \<in> D then (name, leftover (removeall_left e name) n)
                             else (name, n))
              (filter (\<lambda>(name, n). name \<notin> D \<or> removeall_fails e name) (dest w))"
    "lock w' = lock w" if "K < int (length cand)"
    using that unfolding w'_def unf D_def cand_def K_def by simp_all
  have 7: "map fst (dest w')
            = map fst (filter (\<lambda>(name, n). name \<notin> D \<or> removeall_fails e name) (dest w))"
    "backup_names (dest w') = filter (\<lambda>name. name \<notin> D \<or> removeall_fails e name) cand"
    if "K < int (length cand)"
    unfolding 6(1)[OF that] cand_def
    by (simp_all only: map_fst_leftover backup_names_leftover backup_names_filter)
  have 8: "dest w' = filter (\<lambda>(name, n). name \<notin> D) (dest w)"
    "set (backup_names (dest w')) = set cand - D"
    if "K < int (length cand)" "\<forall>name. \<not> removeall_fails e name"
  proof -
    have "map (\<lambda>(name, n). if name \<in> D then (name, leftover (removeall_left e name) n)
                             else (name, n))
              (filter (\<lambda>(name, n). name \<notin> D) (dest w))
          = filter (\<lambda>(name, n). name \<notin> D) (dest w)"
      by (rule map_leftover_none) auto
    then show "dest w' = filter (\<lambda>(name, n). name \<notin> D) (dest w)"
      using 6(1)[OF that(1)] that(2) by simp
    show "set (backup_names (dest w')) = set cand - D"
      using 7(2)[OF that(1)] that(2) by auto
  qed
  from 1 2 3 4 5 6 7 8 show ?thesis by blast
qed

text \<open>
  C3 as stated fails where the destination holds something that is not a directory:
  with two snapshots and a log file the specification counts three candidates, more
  than the retention count 2, and would delete the oldest snapshot; the program
  counts two and deletes nothing.
\<close>

theorem prune_counts_directories_only:
  "length (spec_candidates (dest world_with_log)) = 3 \<and> Keep (config backup_keep2) = 2
   \<and> cleanupOldBackups backup_keep2 example_env world_with_log = (world_with_log, None)"
  by code_simp

theorem cleanupOldBackups_keeps_newest_witness:
  "cleanupOldBackups example_backup example_env example_world
     = (\<lparr>dest = [(''UTC_2025-01-02_00.00.00'', Dir [''data'']),
                  (''latest'', Symlink ''UTC_2025-01-02_00.00.00'')],
         lock = False\<rparr>, None)"
proof -
  have pre: "1 \<le> Keep (config example_backup)" "\<not> readdir_dest_fails example_env"
    "distinct (map fst (dest example_world))"
    by code_simp+
  have more: "Keep (config example_backup) < int (length (backup_names (dest example_world)))"
    by code_simp
  have works: "\<forall>name. \<not> removeall_fails example_env name"
    by (simp add: example_env_def)
  note T = cleanupOldBackups_keeps_newest[OF pre]
  from T more works have "dest (fst (cleanupOldBackups example_backup example_env example_world))
      = filter (\<lambda>(name, n). name \<notin> set (take (length (backup_names (dest example_world))
                                                  - nat (Keep (config example_backup)))
                                            (sort (backup_names (dest example_world)))))
          (dest example_world)"
    and "lock (fst (cleanupOldBackups example_backup example_env example_world)) = lock example_world"
    and "snd (cleanupOldBackups example_backup example_env example_world) = None"
    by blast+
  moreover have "filter (\<lambda>(name, n). name \<notin> set (take (length (backup_names (dest example_world))
                                                  - nat (Keep (config example_backup)))
                                            (sort (backup_names (dest example_world)))))
          (dest example_world)
       = [(''UTC_2025-01-02_00.00.00'', Dir [''data'']),
                  (''latest'', Symlink ''UTC_2025-01-02_00.00.00'')]"
    by code_simp
  moreover have "lock example_world = False" by code_simp
  ultimately show ?thesis
    by (cases "cleanupOldBackups example_backup example_env example_world") (cases "fst (cleanupOldBackups example_backup example_env example_world)", simp)
qed

section \<open>The resolution of the binary\<close>

lemma Split_not_Nil: "Split s sep \<noteq> []"
  by (induction s) (auto split: list.splits)

lemma Split_no_sep: "sep \<notin> set s \<Longrightarrow> Split s sep = [s]"
  by (induction s) auto

lemma Split_append_sep:
  "sep \<notin> set s \<Longrightarrow> Split (s @ sep # r) sep = s # Split r sep"
  by (induction s) (auto split: list.splits)

lemma isDigit_not_dot: "isDigit c \<Longrightarrow> c \<noteq> CHR ''.''"
  by (auto simp: isDigit_def)

lemma isDigit_not_sign: "isDigit c \<Longrightarrow> c \<noteq> CHR ''+'' \<and> c \<noteq> CHR ''-''"
  by (auto simp: isDigit_def)

lemma digits_no_dot: "list_all isDigit d \<Longrightarrow> CHR ''.'' \<notin> set d"
  by (auto simp: list_all_iff dest: isDigit_not_dot)

lemma Split_triple:
  assumes "list_all isDigit d1" "list_all isDigit d2" "list_all isDigit d3"
  shows "Split (d1 @ ''.'' @ d2 @ ''.'' @ d3) CHR ''.'' = [d1, d2, d3]"
  using assms by (simp add: Split_append_sep Split_no_sep digits_no_dot)

lemma digitVal_range: "isDigit c \<Longrightarrow> 0 \<le> digitVal c \<and> digitVal c \<le> 9"
proof -
  assume "isDigit c"
  then have "48 \<le> (of_char c :: nat)" "(of_char c :: nat) \<le> 57"
    by (simp_all add: isDigit_def less_eq_char_def)
  moreover have "(of_char c :: int) = int (of_char c)" by (simp only: of_nat_of_char)
  ultimately show ?thesis by (simp add: digitVal_def)
qed

lemma foldl_decimal_nonneg:
  "list_all isDigit d \<Longrightarrow> 0 \<le> n \<Longrightarrow> 0 \<le> foldl (\<lambda>n c. 10 * n + digitVal c) n d"
proof (induction d arbitrary: n)
  case Nil
  then show ?case by simp
next
  case (Cons c d)
  then have "0 \<le> 10 * n + digitVal c" using digitVal_range[of c] by simp
  then show ?case using Cons by simp
qed

lemma decimal_nonneg: "list_all isDigit d \<Longrightarrow> 0 \<le> decimal d"
  by (simp add: decimal_def foldl_decimal_nonneg)

lemma foldl_decimal_ge:
  "list_all isDigit d \<Longrightarrow> 0 \<le> n \<Longrightarrow> n \<le> foldl (\<lambda>n c. 10 * n + digitVal c) n d"
proof (induction d arbitrary: n)
  case Nil
  then show ?case by simp
next
  case (Cons c d)
  then have m: "0 \<le> 10 * n + digitVal c" "n \<le> 10 * n + digitVal c"
    using digitVal_range[of c] by simp_all
  from Cons m(1) have "10 * n + digitVal c
      \<le> foldl (\<lambda>n c. 10 * n + digitVal c) (10 * n + digitVal c) d"
    by simp
  with m(2) show ?case by simp
qed

lemma scan_digits_decimal:
  "list_all isDigit d \<Longrightarrow> 0 \<le> n \<Longrightarrow> foldl (\<lambda>n c. 10 * n + digitVal c) n d < 2 ^ 63 \<Longrightarrow>
     scan_digits n d = (foldl (\<lambda>n c. 10 * n + digitVal c) n d, None)"
proof (induction d arbitrary: n)
  case Nil
  then show ?case by simp
next
  case (Cons c d)
  let ?m = "10 * n + digitVal c"
  from Cons.prems have c: "isDigit c" "list_all isDigit d" by simp_all
  have m0: "0 \<le> ?m" "10 * n \<le> ?m" using Cons.prems(2) digitVal_range[OF c(1)] by simp_all
  have "?m \<le> foldl (\<lambda>n c. 10 * n + digitVal c) ?m d"
    by (rule foldl_decimal_ge[OF c(2) m0(1)])
  with Cons.prems(3) have small: "?m < 2 ^ 63" by simp
  with m0(2) have n: "\<not> n \<ge> 1844674407370955162" by simp
  from small have m: "\<not> ?m > 2 ^ 64 - 1" by simp
  have "scan_digits n (c # d) = scan_digits ?m d"
    using c(1) n m by simp
  also have "\<dots> = (foldl (\<lambda>n c. 10 * n + digitVal c) ?m d, None)"
    using Cons.prems(3) by (intro Cons.IH[OF c(2) m0(1)]) simp
  finally show ?case by simp
qed

lemma Atoi_digits:
  assumes "d \<noteq> []" "list_all isDigit d" "decimal d < 2 ^ 63"
  shows "Atoi d = (decimal d, None)"
proof -
  from assms(1,2) have "isDigit (hd d)" by (cases d) auto
  then have sign: "hd d \<noteq> CHR ''+''" "hd d \<noteq> CHR ''-''" using isDigit_not_sign by blast+
  have "scan_digits 0 d = (decimal d, None)"
    using scan_digits_decimal[OF assms(2), of 0] assms(3) by (simp add: decimal_def)
  then show ?thesis using assms sign by (simp add: Atoi_def ParseInt_def Let_def)
qed

lemma wrap64_id: "- (2 ^ 63) \<le> x \<Longrightarrow> x < 2 ^ 63 \<Longrightarrow> wrap64 x = x"
  by (simp add: wrap64_def)

lemma isOldRsync_triple:
  assumes d: "d1 \<noteq> []" "d2 \<noteq> []" "d3 \<noteq> []"
      "list_all isDigit d1" "list_all isDigit d2" "list_all isDigit d3"
    and small: "decimal d1 < 10 ^ 14" "decimal d2 < 100" "decimal d3 < 100"
  shows "isOldRsync (d1 @ ''.'' @ d2 @ ''.'' @ d3) \<longleftrightarrow> below_minimum (decimal d1, decimal d2, decimal d3)"
proof -
  let ?a = "decimal d1" and ?b = "decimal d2" and ?c = "decimal d3"
  have nn: "0 \<le> ?a" "0 \<le> ?b" "0 \<le> ?c" using d by (simp_all add: decimal_nonneg)
  have at: "Atoi d1 = (?a, None)" "Atoi d2 = (?b, None)" "Atoi d3 = (?c, None)"
    using d small by (simp_all add: Atoi_digits)
  have w1: "wrap64 (?a * 10000) = ?a * 10000" using nn small by (intro wrap64_id) simp_all
  have w2: "wrap64 (?b * 100) = ?b * 100" using nn small by (intro wrap64_id) simp_all
  have w3: "wrap64 (?a * 10000 + ?b * 100) = ?a * 10000 + ?b * 100"
    using nn small by (intro wrap64_id) simp_all
  have w4: "wrap64 (?a * 10000 + ?b * 100 + ?c) = ?a * 10000 + ?b * 100 + ?c"
    using nn small by (intro wrap64_id) simp_all
  have "isOldRsync (d1 @ ''.'' @ d2 @ ''.'' @ d3) \<longleftrightarrow> ?a * 10000 + ?b * 100 + ?c < 30200"
    unfolding isOldRsync_def Split_triple[OF d(4-6)]
    by (simp add: at w1 w2 w3 w4 Let_def)
  also have "\<dots> \<longleftrightarrow> below_minimum (?a, ?b, ?c)"
    using nn small by auto
  finally show ?thesis .
qed

lemma version_numbers_triple:
  assumes "d1 \<noteq> []" "d2 \<noteq> []" "d3 \<noteq> []"
      "list_all isDigit d1" "list_all isDigit d2" "list_all isDigit d3"
  shows "version_numbers (d1 @ ''.'' @ d2 @ ''.'' @ d3) = Some (decimal d1, decimal d2, decimal d3)"
  unfolding version_numbers_def Split_triple[OF assms(4-6)] using assms by simp

lemma match_version_Some:
  assumes "match_version s = Some v"
  shows "\<exists>d1 d2 d3. v = d1 @ ''.'' @ d2 @ ''.'' @ d3 \<and> d1 \<noteq> [] \<and> d2 \<noteq> [] \<and> d3 \<noteq> []
           \<and> list_all isDigit d1 \<and> list_all isDigit d2 \<and> list_all isDigit d3"
proof -
  have tw: "list_all isDigit (takeWhile isDigit t)" for t
    by (simp add: list_all_iff) (meson set_takeWhileD)
  from assms show ?thesis
    unfolding match_version_def Let_def
    by (auto split: if_splits list.splits intro!: exI tw)
qed

lemma FindString_version_form:
  "FindString_version s = [] \<or>
   (\<exists>d1 d2 d3. FindString_version s = d1 @ ''.'' @ d2 @ ''.'' @ d3 \<and> d1 \<noteq> [] \<and> d2 \<noteq> [] \<and> d3 \<noteq> []
           \<and> list_all isDigit d1 \<and> list_all isDigit d2 \<and> list_all isDigit d3)"
proof (induction s)
  case Nil
  then show ?case by simp
next
  case (Cons c cs)
  show ?case
  proof (cases "match_version (c # cs)")
    case None
    then show ?thesis using Cons by simp
  next
    case (Some v)
    then show ?thesis using match_version_Some[OF Some] by simp
  qed
qed

lemma isOldRsync_empty: "isOldRsync []"
  by (simp add: isOldRsync_def)

lemma version_numbers_empty: "version_numbers [] = None"
  by (simp add: version_numbers_def)


lemma isOldRsync_spec:
  assumes "in_encoding_range (FindString_version out)"
  shows "isOldRsync (FindString_version out) \<longleftrightarrow> spec_too_old (FindString_version out)"
proof -
  consider "FindString_version out = []"
    | d1 d2 d3 where "FindString_version out = d1 @ ''.'' @ d2 @ ''.'' @ d3"
        "d1 \<noteq> []" "d2 \<noteq> []" "d3 \<noteq> []"
        "list_all isDigit d1" "list_all isDigit d2" "list_all isDigit d3"
    using FindString_version_form[of out] by blast
  then show ?thesis
  proof cases
    case 1
    then show ?thesis
      by (simp add: isOldRsync_empty spec_too_old_def version_numbers_empty)
  next
    case 2
    note vn = version_numbers_triple[OF 2(2-7)]
    from assms have "decimal d1 < 10 ^ 14" "decimal d2 < 100" "decimal d3 < 100"
      unfolding in_encoding_range_def 2(1) vn by simp_all
    from isOldRsync_triple[OF 2(2-7) this] show ?thesis
      unfolding 2(1) spec_too_old_def vn by simp
  qed
qed

lemma findRsync_forced:
  "ForceSystemRsync (config b) \<Longrightarrow>
     findRsync b e = (b\<lparr>config := (config b)\<lparr>RsyncBin := ''/usr/bin/rsync''\<rparr>\<rparr>, None)"
  by (simp add: findRsync_def)

lemma findRsync_unforced:
  fixes b :: Backup and e :: env
  assumes "\<not> ForceSystemRsync (config b)"
  defines "b1 \<equiv> (case find (binary_exists e) rsync_paths of
                     Some path \<Rightarrow> b\<lparr>config := (config b)\<lparr>RsyncBin := path\<rparr>\<rparr>
                   | None \<Rightarrow> b)"
  shows "fst (findRsync b e) = b1"
    and "snd (findRsync b e) =
           (if RsyncBin (config b1) = [] then Some BinaryNotFound
            else if RsyncBin (config b1) = ''/usr/bin/rsync''
            then (case version_cmd e ''/usr/bin/rsync'' of
                    None \<Rightarrow> None
                  | Some out \<Rightarrow> if isOldRsync (FindString_version out)
                               then Some IncompatibleBinary else None)
            else None)"
proof -
  have nf: "\<not> ForceSystemRsync (config b1)"
    using assms(1) unfolding b1_def by (simp split: option.splits)
  show "fst (findRsync b e) = b1"
    using assms(1) nf unfolding findRsync_def b1_def[symmetric] Let_def
    by (simp add: getRsyncVersion_def split: option.splits prod.splits)
  show "snd (findRsync b e) =
           (if RsyncBin (config b1) = [] then Some BinaryNotFound
            else if RsyncBin (config b1) = ''/usr/bin/rsync''
            then (case version_cmd e ''/usr/bin/rsync'' of
                    None \<Rightarrow> None
                  | Some out \<Rightarrow> if isOldRsync (FindString_version out)
                               then Some IncompatibleBinary else None)
            else None)"
    using assms(1) nf unfolding findRsync_def b1_def[symmetric] Let_def
    by (simp add: getRsyncVersion_def split: option.splits prod.splits)
qed

text \<open>
  C7, amended. With \<open>selected\<close> the binary that the resolution leaves in the
  configuration: the resolution fails with the incompatible-binary error exactly when
  \<open>selected\<close> is the system path, the force flag is not set, the version query on
  the system path succeeds, and the version found in its output (the first dotted
  triple, or nothing) is flagged too old by \<open>isOldRsync\<close>. When the query itself
  fails, the resolution succeeds. On every output whose version has a major number
  below \<open>10^14\<close> and minor and patch numbers below 100 (or that has no version),
  \<open>isOldRsync\<close> is the specification's "too old": no three integers, or below
  3.2.0. When the force flag is set, the
  resolution pins the system path and succeeds whatever the environment says: no
  version is asked for.
\<close>

theorem findRsync_incompatible_iff:
  fixes b e
  defines "selected \<equiv> RsyncBin (config (fst (findRsync b e)))"
  shows "(snd (findRsync b e) = Some IncompatibleBinary \<longleftrightarrow>
            selected = ''/usr/bin/rsync'' \<and> \<not> ForceSystemRsync (config b)
            \<and> (\<exists>out. version_cmd e ''/usr/bin/rsync'' = Some out
                      \<and> isOldRsync (FindString_version out)))
       \<and> (selected = ''/usr/bin/rsync'' \<and> \<not> ForceSystemRsync (config b)
            \<and> version_cmd e ''/usr/bin/rsync'' = None \<longrightarrow> snd (findRsync b e) = None)
       \<and> (\<forall>out. in_encoding_range (FindString_version out) \<longrightarrow>
            (isOldRsync (FindString_version out) \<longleftrightarrow> spec_too_old (FindString_version out)))
       \<and> (ForceSystemRsync (config b) \<longrightarrow>
            findRsync b e = (b\<lparr>config := (config b)\<lparr>RsyncBin := ''/usr/bin/rsync''\<rparr>\<rparr>, None))"
proof (cases "ForceSystemRsync (config b)")
  case True
  then show ?thesis
    unfolding selected_def by (simp add: findRsync_forced isOldRsync_spec)
next
  case False
  show ?thesis
    unfolding selected_def findRsync_unforced[OF False]
    using False by (auto simp: isOldRsync_spec split: option.splits)
qed

text \<open>
  C7 as stated fails when the version query fails: the system binary is selected,
  the force flag is not set, the version string the query returns is empty, which
  is too old in the words of the specification, and yet the resolution succeeds.
\<close>

theorem probe_failure_is_accepted:
  "RsyncBin (config (fst (findRsync example_backup (example_env\<lparr>version_cmd := (\<lambda>path. None)\<rparr>))))
     = ''/usr/bin/rsync''
   \<and> \<not> ForceSystemRsync (config example_backup)
   \<and> spec_too_old (fst (getRsyncVersion
        (fst (findRsync example_backup (example_env\<lparr>version_cmd := (\<lambda>path. None)\<rparr>)))
        (example_env\<lparr>version_cmd := (\<lambda>path. None)\<rparr>)))
   \<and> snd (findRsync example_backup (example_env\<lparr>version_cmd := (\<lambda>path. None)\<rparr>)) = None"
  by code_simp

theorem findRsync_incompatible_iff_witness:
  "snd (findRsync example_backup
     (example_env\<lparr>version_cmd := (\<lambda>path. Some ''rsync  version 2.6.9  protocol version 29'')\<rparr>))
   = Some IncompatibleBinary
   \<and> spec_too_old ''2.6.9''"
proof -
  let ?e = "example_env\<lparr>version_cmd := (\<lambda>path. Some ''rsync  version 2.6.9  protocol version 29'')\<rparr>"
  have sel: "RsyncBin (config (fst (findRsync example_backup ?e))) = ''/usr/bin/rsync''"
    "\<not> ForceSystemRsync (config example_backup)"
    "version_cmd ?e ''/usr/bin/rsync'' = Some ''rsync  version 2.6.9  protocol version 29''"
    "FindString_version ''rsync  version 2.6.9  protocol version 29'' = ''2.6.9''"
    "in_encoding_range ''2.6.9''" "isOldRsync ''2.6.9''"
    by code_simp+
  note T = findRsync_incompatible_iff[of example_backup ?e]
  have 1: "snd (findRsync example_backup ?e) = Some IncompatibleBinary"
    using T sel by auto
  have 2: "spec_too_old ''2.6.9''"
    using T sel by metis
  from 1 2 show ?thesis by blast
qed

text \<open>Outside that range the number no longer orders as the versions do: a patch
  number of 200 carries into the minor place, and a major number of
  922337203685478 makes the product wrap around to a negative number.\<close>

lemma encoding_outside_range: "\<not> isOldRsync ''3.1.200'' \<and> spec_too_old ''3.1.200''"
  by code_simp

lemma encoding_wraps_around:
  "isOldRsync ''922337203685478.0.0'' \<and> \<not> spec_too_old ''922337203685478.0.0''"
  by code_simp

section \<open>The argument vector\<close>

text \<open>
  C5, amended. The argument vector is the concatenation, in this order, of the base
  flags, the remote-transport flags (when the source or the destination matches the
  remote-path heuristic), the progress flag (when enabled), the platform flags (when
  the version query succeeded, the platform is \<open>darwin\<close> and the version is not too
  old), the incremental-seed flag (when the pointer gave a name and the path of
  that snapshot exists), the exclusion flag (when the list exists), the dry-run
  flag (when requested), then the source with a trailing separator and the path of
  the in-progress snapshot. It is the same for two runs that agree on the
  configuration, the version, the platform, the two existence tests, the name of
  the last snapshot and the in-progress path: of the run itself it depends only on
  the configuration and on \<open>snapDir\<close>, not on the other fields.
\<close>

theorem rsyncArgs_order:
  fixes vars os probe last_exists exclude_found b lastBackup stamp link
  defines "c \<equiv> config b"
  shows "rsyncArgs vars os probe last_exists exclude_found b lastBackup =
           RsyncBaseArgs vars
           @ (if isSSHPath (Source c) \<or> isSSHPath (Destination c) then RsyncSSHArgs vars else [])
           @ (if ShowProgress c then [''--progress''] else [])
           @ (if snd probe = None \<and> os = ''darwin'' \<and> \<not> isOldRsync (fst probe)
              then RsyncMacOSArgs vars else [])
           @ (if lastBackup \<noteq> ''(none)'' \<and> last_exists
              then [''--link-dest='' @ filepath_Join [Destination c, lastBackup]] else [])
           @ (if exclude_found then [''--exclude-from='' @ ExcludeList c] else [])
           @ (if DryRun c then [''--dry-run''] else [])
           @ [Source c @ ''/'', snapDir b]
       \<and> rsyncArgs vars os probe last_exists exclude_found b lastBackup =
           rsyncArgs vars os probe last_exists exclude_found
             \<lparr>config = c, timestamp = stamp, snapDir = snapDir b, latestLink = link\<rparr> lastBackup"
  unfolding c_def
  by (cases probe) (auto simp: rsyncArgs_def Let_def split: option.splits)

text \<open>
  C5 as stated fails: two runs of the same configuration on consecutive days, with
  the same version, platform and existence tests and no prior snapshot, have
  different argument vectors, because the in-progress path carries the time stamp
  of the run.
\<close>

theorem args_differ_between_runs:
  "config (NewBackup example_config example_time) = config (NewBackup example_config next_day)
   \<and> rsyncArgs program_vars ''linux'' (''3.2.7'', None) False False
        (NewBackup example_config example_time) ''(none)''
     \<noteq> rsyncArgs program_vars ''linux'' (''3.2.7'', None) False False
        (NewBackup example_config next_day) ''(none)''"
  by code_simp


theorem rsyncArgs_order_witness:
  "rsyncArgs program_vars ''darwin'' (''3.2.7'', None) True True remote_backup
     ''UTC_2025-01-02_00.00.00''
   = [''-a'', ''-U'', ''--numeric-ids'', ''-H'', ''-A'', ''--partial'', ''--itemize-changes'',
      ''--delete'', ''--delete-excluded'', ''--stats'',
      ''-z'', ''--compress-level=6'', ''-e'',
      ''ssh -o StrictHostKeyChecking=no -o UserKnownHostsFile=/dev/null'',
      ''--progress'',
      ''-E'', ''--fileflags'',
      ''--link-dest=/backup/UTC_2025-01-02_00.00.00'',
      ''--exclude-from=/etc/backup-exclude.list'',
      ''--dry-run'',
      ''user@server.com:/home/user/data/'',
      ''/backup/UTC_2025-01-03_00.00.00_INCOMPLETE'']"
  by (subst rsyncArgs_order[THEN conjunct1]) code_simp

section \<open>The transfer statistics\<close>

lemma parse_with_map_filter:
  "parse_with ps s =
     (case List.map_filter (\<lambda>p. pattern_bytes p s) ps of
        [] \<Rightarrow> 0
      | bytes # rest \<Rightarrow> of_int (float64_of_int bytes) / (1024 * 1024 * 1024))"
proof (induction ps)
  case Nil
  then show ?case by (simp add: List.map_filter_simps)
next
  case (Cons p ps)
  obtain pre suf where p: "p = (pre, suf)" by (cases p)
  show ?case
    unfolding p using Cons
    by (simp add: List.map_filter_simps pattern_bytes_def split: option.splits prod.splits)
qed

lemma FindSubmatch_skip:
  "\<forall>k<length a. match_count pre suf (drop k (a @ r)) = None \<Longrightarrow>
     FindSubmatch pre suf (a @ r) = FindSubmatch pre suf r"
proof (induction a)
  case Nil
  then show ?case by simp
next
  case (Cons c a)
  from Cons.prems have 0: "match_count pre suf ((c # a) @ r) = None" by force
  from Cons.prems have "\<forall>k<length a. match_count pre suf (drop k (a @ r)) = None" by force
  then have "FindSubmatch pre suf (a @ r) = FindSubmatch pre suf r" by (rule Cons.IH)
  then show ?case using 0 by simp
qed

lemma FindSubmatch_here:
  "match_count pre suf s = Some m \<Longrightarrow> FindSubmatch pre suf s = Some m"
  by (cases s) simp_all

lemma match_stats_line:
  "match_count ''Total transferred file size: '' '' bytes'' (stats_line @ post) = Some ''1,073,741,824''"
  by (simp add: stats_line_def match_count_def isCountChar_def isDigit_def)

lemma stats_line_bytes:
  "ParseInt (ReplaceAll_char ''1,073,741,824'' CHR '','') = (1073741824, None)"
  "float64_of_int 1073741824 = 1073741824"
  by code_simp+

lemma FindSubmatch_None_bytes: "FindSubmatch (fst p) (snd p) s = None \<Longrightarrow> pattern_bytes p s = None"
  by (simp add: pattern_bytes_def)

text \<open>
  C9, amended. The patterns are tried in their fixed order and the first one that
  yields a byte count (a leftmost match whose digits, commas removed, parse as an
  \<open>int64\<close>) decides: the figure is that count, as a float64, divided by \<open>1024^3\<close>;
  it is 0 when no pattern yields one. For a text containing the line
  \<open>Total transferred file size: 1,073,741,824 bytes\<close> with no match of the first
  pattern starting before it, the figure is exactly 1; for a text that none of
  the patterns matches, it is 0.
\<close>

theorem parseTransferredGB_spec:
  "parseTransferredGB s =
     (case List.map_filter (\<lambda>p. pattern_bytes p s) patterns of
        [] \<Rightarrow> 0
      | bytes # rest \<Rightarrow> of_int (float64_of_int bytes) / (1024 * 1024 * 1024))
   \<and> ((\<forall>k<length before.
          match_count ''Total transferred file size: '' '' bytes'' (drop k (before @ stats_line @ after)) = None)
        \<longrightarrow> parseTransferredGB (before @ stats_line @ after) = 1)
   \<and> ((\<forall>p\<in>set patterns. FindSubmatch (fst p) (snd p) s = None) \<longrightarrow> parseTransferredGB s = 0)"
proof (intro conjI impI)
  show "parseTransferredGB s =
     (case List.map_filter (\<lambda>p. pattern_bytes p s) patterns of
        [] \<Rightarrow> 0
      | bytes # rest \<Rightarrow> of_int (float64_of_int bytes) / (1024 * 1024 * 1024))"
    unfolding parseTransferredGB_def by (rule parse_with_map_filter)
next
  assume "\<forall>k<length before.
       match_count ''Total transferred file size: '' '' bytes'' (drop k (before @ stats_line @ after)) = None"
  then have "FindSubmatch ''Total transferred file size: '' '' bytes'' (before @ stats_line @ after)
      = FindSubmatch ''Total transferred file size: '' '' bytes'' (stats_line @ after)"
    by (rule FindSubmatch_skip)
  also have "\<dots> = Some ''1,073,741,824''"
    by (rule FindSubmatch_here[OF match_stats_line])
  finally show "parseTransferredGB (before @ stats_line @ after) = 1"
    by (simp add: parseTransferredGB_def patterns_def stats_line_bytes)
next
  assume "\<forall>p\<in>set patterns. FindSubmatch (fst p) (snd p) s = None"
  then show "parseTransferredGB s = 0"
    by (simp add: parseTransferredGB_def patterns_def)
qed

text \<open>
  C9 as stated fails for a text that contains the quoted line after an earlier
  match of the first pattern: the leftmost match decides, here with 0 bytes.
\<close>

theorem earlier_match_wins:
  "Contains (''Total transferred file size: 0 bytes'' @ [CHR 0x0A] @ stats_line) stats_line
   \<and> parseTransferredGB (''Total transferred file size: 0 bytes'' @ [CHR 0x0A] @ stats_line) = 0"
  by code_simp

theorem parseTransferredGB_spec_witness:
  "parseTransferredGB (''Number of files: 3'' @ [CHR 0x0A] @ stats_line @ [CHR 0x0A]) = 1
   \<and> parseTransferredGB ''rsync error: some files could not be transferred'' = 0"
proof -
  have 1: "\<forall>k<length (''Number of files: 3'' @ [CHR 0x0A]).
     match_count ''Total transferred file size: '' '' bytes''
       (drop k ((''Number of files: 3'' @ [CHR 0x0A]) @ stats_line @ [CHR 0x0A])) = None"
    by code_simp
  have 2: "\<forall>p\<in>set patterns. FindSubmatch (fst p) (snd p)
     ''rsync error: some files could not be transferred'' = None"
    by code_simp
  from parseTransferredGB_spec[of "''rsync error: some files could not be transferred''"
      "''Number of files: 3'' @ [CHR 0x0A]" "[CHR 0x0A]"] 1 2
  show ?thesis by simp
qed

section \<open>After the finalization\<close>

text \<open>
  C2, amended. For a run that has finalized its snapshot (every step up to and
  including the finalization succeeded, leaving the run \<open>b2\<close> and the state \<open>w2\<close>):
  the outcome is decided by the republishing of the pointer alone. If that fails,
  \<open>Run\<close> returns its error, wrapped as the failure to update the latest link, and
  the exit status is 1; if it succeeds, \<open>Run\<close> returns no error and the exit status
  is 0 whatever the retention pruning does and returns.
\<close>

theorem prune_failure_is_not_fatal:
  assumes "validateConfig b = None" and "validatePaths b e = None"
    and "checkDiskSpace b (df_output e) = None"
    and "createLock b e w = (w1, None)" and "setupLogging b e = None"
    and "transfer_and_finalize vars b e w1 = (b2, w2, None)"
  shows "snd (Run vars b e w) =
           (case snd (updateLatestLink b2 e w2) of
              None \<Rightarrow> None
            | Some err \<Rightarrow> Some (Wrapped UpdateLatestLink err))
       \<and> exit_status (snd (Run vars b e w)) = (if snd (updateLatestLink b2 e w2) = None then 0 else 1)
       \<and> (\<forall>w3. updateLatestLink b2 e w2 = (w3, None) \<longrightarrow>
             Run vars b e w = (removeLock b e (fst (cleanupOldBackups b2 e w3)), None))"
  using assms
  by (auto simp: Run_def publish_and_prune_def exit_status_def split: prod.splits option.splits)

text \<open>
  C2 as stated fails for the pointer: where \<open>latest\<close> is a directory that is not
  empty, the snapshot is transferred and finalized under its final name, the
  pointer cannot be replaced, and the run fails.
\<close>

theorem pointer_failure_fails_run:
  "snd (snd (transfer_and_finalize program_vars example_backup example_env
              (world_latest_dir\<lparr>lock := True\<rparr>))) = None
   \<and> map_of (dest (fst (Run program_vars example_backup example_env world_latest_dir)))
        (timestamp example_backup) = Some (Dir [''data''])
   \<and> snd (Run program_vars example_backup example_env world_latest_dir)
        = Some (Wrapped UpdateLatestLink OsError)
   \<and> exit_status (snd (Run program_vars example_backup example_env world_latest_dir)) = 1"
  by code_simp

theorem prune_failure_is_not_fatal_witness:
  "snd (cleanupOldBackups
          (fst (transfer_and_finalize program_vars example_backup
                  (example_env\<lparr>readdir_dest_fails := True\<rparr>) (example_world\<lparr>lock := True\<rparr>)))
          (example_env\<lparr>readdir_dest_fails := True\<rparr>)
          (fst (updateLatestLink
                  (fst (transfer_and_finalize program_vars example_backup
                          (example_env\<lparr>readdir_dest_fails := True\<rparr>)
                          (example_world\<lparr>lock := True\<rparr>)))
                  (example_env\<lparr>readdir_dest_fails := True\<rparr>)
                  (fst (snd (transfer_and_finalize program_vars example_backup
                          (example_env\<lparr>readdir_dest_fails := True\<rparr>)
                          (example_world\<lparr>lock := True\<rparr>)))))))
     = Some OsError
   \<and> snd (Run program_vars example_backup (example_env\<lparr>readdir_dest_fails := True\<rparr>) example_world)
     = None
   \<and> exit_status (snd (Run program_vars example_backup (example_env\<lparr>readdir_dest_fails := True\<rparr>)
        example_world)) = 0"
proof -
  let ?e = "example_env\<lparr>readdir_dest_fails := True\<rparr>"
  let ?w1 = "example_world\<lparr>lock := True\<rparr>"
  let ?t = "transfer_and_finalize program_vars example_backup ?e ?w1"
  have pre: "validateConfig example_backup = None" "validatePaths example_backup ?e = None"
    "checkDiskSpace example_backup (df_output ?e) = None"
    "createLock example_backup ?e example_world = (?w1, None)"
    "setupLogging example_backup ?e = None"
    by code_simp+
  have tf: "?t = (fst ?t, fst (snd ?t), None)"
    by code_simp
  have ok: "snd (updateLatestLink (fst ?t) ?e (fst (snd ?t))) = None"
    by code_simp
  have warn: "snd (cleanupOldBackups (fst ?t) ?e
                     (fst (updateLatestLink (fst ?t) ?e (fst (snd ?t))))) = Some OsError"
    by code_simp
  from prune_failure_is_not_fatal[OF pre tf] ok warn show ?thesis by (simp add: exit_status_def)
qed

section \<open>Dry runs\<close>

text \<open>The two steps that test the dry-run flag do nothing in a dry run.\<close>

lemma dry_run_skips_verify_and_finalize:
  "DryRun (config b) \<Longrightarrow> verifyBackup b w = None \<and> finalizeBackup b e w = (b, w, None)"
  by (simp add: verifyBackup_def finalizeBackup_def)

text \<open>
  C1 (a defect of the program). A dry run over two snapshots with a retention count
  of 1, with an rsync that leaves the destination alone: the run succeeds, the
  older snapshot has been deleted and the pointer names a snapshot that does not
  exist. \<open>updateLatestLink\<close> and \<open>cleanupOldBackups\<close> do not look at the dry-run
  flag, as \<open>verifyBackup\<close> and \<open>finalizeBackup\<close> do.
\<close>

theorem dry_run_changes_destination:
  "DryRun (config (NewBackup (example_config\<lparr>DryRun := True\<rparr>) example_time))
   \<and> Run program_vars (NewBackup (example_config\<lparr>DryRun := True\<rparr>) example_time) example_env
       example_world
     = (\<lparr>dest = [(''UTC_2025-01-02_00.00.00'', Dir [''data'']),
                  (''latest'', Symlink ''UTC_2025-01-03_00.00.00'')],
         lock = False\<rparr>, None)"
  by code_simp

section \<open>The names of the snapshots\<close>

text \<open>
  C4 (a defect of the program). The name starts with the abbreviation of the time
  zone, so the names of two runs in different zones of the same place compare by
  the abbreviations first: the run of 1 April (CEST) gets a name below that of the
  run of 1 March (CET), the sort puts it first, and with a retention count of 1
  the pruning deletes the newer snapshot.
\<close>

theorem zone_name_breaks_order:
  "unix march_cet < unix april_cest
   \<and> Format march_cet = ''CET_2025-03-01_12.00.00''
   \<and> Format april_cest = ''CEST_2025-04-01_12.00.00''
   \<and> Format april_cest < Format march_cet
   \<and> sort_backups [Format march_cet, Format april_cest] = [Format april_cest, Format march_cet]
   \<and> fst (cleanupOldBackups example_backup example_env
        \<lparr>dest = [(Format march_cet, Dir [''data'']), (Format april_cest, Dir [''data''])],
         lock = False\<rparr>)
     = \<lparr>dest = [(Format march_cet, Dir [''data''])], lock = False\<rparr>"
  by code_simp

end
